theory Spec2Isabelle
  imports Complex_Main "HOL-Library.AList" "HOL-Library.Char_ord" "HOL-Library.List_Lexorder"
begin

section \<open>Data model of \<^verbatim>\<open>models/model_persistence.py\<close>\<close>

text \<open>
  Python exceptions are values. The message of a \<^verbatim>\<open>ValueError\<close> and of a
  \<^verbatim>\<open>FileNotFoundError\<close> is the one the source formats; \<open>OSError\<close> stands for the failure
  of an operating-system write, \<open>JSONDecodeError\<close> for a document that \<^verbatim>\<open>json.load\<close> or the
  \<^verbatim>\<open>ModelMetadata(**dict)\<close> constructor rejects, \<open>UnpicklingError\<close> for an artifact its
  loader rejects.
\<close>

datatype error =
    ValueError string
  | FileNotFoundError string
  | OSError string
  | JSONDecodeError string
  | UnpicklingError string
  | AttributeError string
  | KeyError string
  | StopIteration
  | ModelError string

text \<open>
  Plain Python numeric data: a bare number or a (nested) list. An object a model receives or
  returns is plain data (no \<^verbatim>\<open>tolist\<close>, no \<^verbatim>\<open>cpu\<close> attribute), a numpy array or numpy
  scalar (\<^verbatim>\<open>tolist\<close> only) or a torch tensor (\<^verbatim>\<open>cpu\<close> and \<^verbatim>\<open>tolist\<close>).
\<close>

datatype pyval = PyNum real | PyList "pyval list"

datatype pyobj = Plain pyval | NdArray pyval | Tensor pyval

datatype json =
    JNull | JBool bool | JNum real | JStr string | JList "json list" | JDict "(string \<times> json) list"

text \<open>
  The opaque model object, reduced to what the source probes: the attributes tested by
  \<^verbatim>\<open>_detect_model_type\<close>, the device of the first parameter (\<open>None\<close>: no
  \<^verbatim>\<open>parameters\<close> attribute; \<open>Some []\<close>: an empty parameter iterator), and the callables
  \<^verbatim>\<open>eval\<close>, \<^verbatim>\<open>__call__\<close>, \<^verbatim>\<open>predict\<close>, \<^verbatim>\<open>predict_proba\<close> (\<open>None\<close>: attribute absent).
\<close>

record model =
  has_state_dict :: bool
  is_base_estimator :: bool
  has_save :: bool
  parameters_is_cuda :: "bool list option"
  has_eval :: bool
  forward :: "(pyobj \<Rightarrow> error + pyobj) option"
  predict_attr :: "(pyobj \<Rightarrow> error + pyobj) option"
  predict_proba_attr :: "(pyobj \<Rightarrow> error + pyobj) option"

record model_metadata =
  model_id :: string
  model_name :: string
  model_type :: string
  version :: string
  training_date :: string
  performance_metrics :: "(string \<times> real) list"
  parameters :: "(string \<times> json) list"
  data_hash :: string
  file_path :: string
  file_size :: nat
  gpu_compatible :: bool
  framework_version :: string
  python_version :: string
  dependencies :: "(string \<times> string) list"

text \<open>
  A registry entry is the dictionary written by \<^verbatim>\<open>save_model\<close> and \<^verbatim>\<open>restore_model\<close>.
  The registry is read back from a JSON document, so the key \<^verbatim>\<open>'active'\<close> may be missing:
  \<open>entry_active = None\<close>. Dictionaries are association lists in insertion order.
\<close>

record registry_entry =
  entry_version :: string
  entry_training_date :: string
  entry_performance_metrics :: "(string \<times> real) list"
  entry_file_path :: string
  entry_metadata_path :: string
  entry_active :: "bool option"

type_synonym models_dict = "(string \<times> registry_entry) list"
type_synonym registry_dict = "(string \<times> models_dict) list"

text \<open>
  Durable storage. A file holds a metadata document, the registry document, an artifact in
  the format of the library that dumped it, or anything else. Paths are strings, joined with
  a slash. \<open>write_fails p\<close> says that opening \<open>p\<close> for writing raises; directories can always
  be created. The clock is a sequence of readings, one consumed by each
  \<^verbatim>\<open>datetime.datetime.now()\<close>; a reading is given by its two renderings.
\<close>

datatype content =
    MetadataDoc model_metadata
  | RegistryDoc registry_dict
  | TorchFile model
  | JoblibFile model
  | PickleFile model
  | OtherFile string

record datetime =
  strftime_stamp :: string
  isoformat :: string

record world =
  files :: "(string \<times> content) list"
  dirs :: "string list"
  write_fails :: "string \<Rightarrow> bool"
  clock :: "nat \<Rightarrow> datetime"
  ticks :: nat
  md5_hexdigest :: "string \<Rightarrow> string"
  framework_versions :: "(string \<times> string) list"
  st_size :: "content \<Rightarrow> nat"

record manager =
  base_path :: string
  backup_path :: string
  registry :: registry_dict

record pipeline =
  persistence_manager :: manager
  loaded_models :: "(string \<times> model) list"
  model_metadata :: "(string \<times> model_metadata) list"

record prediction_result =
  r_prediction :: pyval
  r_model_id :: string
  r_model_name :: string
  r_model_version :: string
  r_timestamp :: string
  r_probabilities :: "pyval option"

section \<open>Storage primitives\<close>

definition join_path :: "string \<Rightarrow> string \<Rightarrow> string" where
  "join_path d n = d @ ''/'' @ n"

definition now :: "world \<Rightarrow> datetime \<times> world" where
  "now w = (clock w (ticks w), w\<lparr>ticks := Suc (ticks w)\<rparr>)"

definition is_file :: "world \<Rightarrow> string \<Rightarrow> bool" where
  "is_file w p = (p \<in> set (map fst (files w)))"

definition path_exists :: "world \<Rightarrow> string \<Rightarrow> bool" where
  "path_exists w p = (p \<in> set (dirs w) \<or> is_file w p)"

definition write_file :: "string \<Rightarrow> content \<Rightarrow> world \<Rightarrow> error + world" where
  "write_file p c w =
     (if write_fails w p then Inl (OSError p)
      else Inr (w\<lparr>files := AList.update p c (files w)\<rparr>))"

definition mkdir :: "string \<Rightarrow> world \<Rightarrow> world" where
  "mkdir p w = (if p \<in> set (dirs w) then w else w\<lparr>dirs := dirs w @ [p]\<rparr>)"

definition registry_file :: "manager \<Rightarrow> string" where
  "registry_file mgr = join_path (base_path mgr) ''model_registry.json''"

text \<open>
  Opening a path for reading: a missing path raises \<^verbatim>\<open>FileNotFoundError\<close>, a directory
  \<^verbatim>\<open>IsADirectoryError\<close> (an \<open>OSError\<close>).
\<close>

definition read_file :: "world \<Rightarrow> string \<Rightarrow> error + content" where
  "read_file w p =
     (case map_of (files w) p of
        None \<Rightarrow> if p \<in> set (dirs w) then Inl (OSError p) else Inl (FileNotFoundError p)
      | Some c \<Rightarrow> Inr c)"

text \<open>\<^verbatim>\<open>json.load\<close> followed by \<^verbatim>\<open>ModelMetadata(**metadata_dict)\<close>.\<close>

definition read_metadata :: "world \<Rightarrow> string \<Rightarrow> error + model_metadata" where
  "read_metadata w p =
     (case read_file w p of
        Inl e \<Rightarrow> Inl e
      | Inr (MetadataDoc md) \<Rightarrow> Inr md
      | Inr _ \<Rightarrow> Inl (JSONDecodeError p))"

text \<open>
  \<^verbatim>\<open>torch.load\<close>, \<^verbatim>\<open>joblib.load\<close> and \<^verbatim>\<open>pickle.load\<close>: each returns the object its own
  \<^verbatim>\<open>dump\<close> stored and is taken to reject every other file.
\<close>

definition torch_load :: "world \<Rightarrow> string \<Rightarrow> error + model" where
  "torch_load w p =
     (case read_file w p of
        Inl e \<Rightarrow> Inl e
      | Inr (TorchFile m) \<Rightarrow> Inr m
      | Inr _ \<Rightarrow> Inl (UnpicklingError p))"

definition joblib_load :: "world \<Rightarrow> string \<Rightarrow> error + model" where
  "joblib_load w p =
     (case read_file w p of
        Inl e \<Rightarrow> Inl e
      | Inr (JoblibFile m) \<Rightarrow> Inr m
      | Inr _ \<Rightarrow> Inl (UnpicklingError p))"

definition pickle_load :: "world \<Rightarrow> string \<Rightarrow> error + model" where
  "pickle_load w p =
     (case read_file w p of
        Inl e \<Rightarrow> Inl e
      | Inr (PickleFile m) \<Rightarrow> Inr m
      | Inr _ \<Rightarrow> Inl (UnpicklingError p))"

text \<open>
  \<^verbatim>\<open>Path.name\<close>, \<^verbatim>\<open>Path.parent\<close> and \<^verbatim>\<open>Path.suffix\<close> on path strings: the part after the last
  slash, the part before it, and the last dotted extension of the name (empty when the only dot
  is the first or the last character of the name).
\<close>

definition path_name :: "string \<Rightarrow> string" where
  "path_name p = rev (takeWhile (\<lambda>c. c \<noteq> CHR ''/'') (rev p))"

definition path_parent :: "string \<Rightarrow> string" where
  "path_parent p = rev (drop 1 (dropWhile (\<lambda>c. c \<noteq> CHR ''/'') (rev p)))"

definition path_suffix :: "string \<Rightarrow> string" where
  "path_suffix p =
     (let n = path_name p; ext = rev (takeWhile (\<lambda>c. c \<noteq> CHR ''.'') (rev n))
      in if CHR ''.'' \<notin> set n \<or> ext = [] \<or> Suc (length ext) = length n then []
         else CHR ''.'' # ext)"

text \<open>
  \<^verbatim>\<open>Path.iterdir\<close>: the files, then the directories, directly below a directory, in storage
  order. \<^verbatim>\<open>Path.unlink\<close> removes a file and raises on a directory; \<^verbatim>\<open>shutil.copy2\<close> reads the
  source and writes the destination.
\<close>

definition iterdir_files :: "world \<Rightarrow> string \<Rightarrow> string list" where
  "iterdir_files w d = filter (\<lambda>p. path_parent p = d) (map fst (files w))"

definition iterdir_dirs :: "world \<Rightarrow> string \<Rightarrow> string list" where
  "iterdir_dirs w d = filter (\<lambda>p. path_parent p = d) (dirs w)"

definition unlink :: "string \<Rightarrow> world \<Rightarrow> error + world" where
  "unlink p w =
     (if is_file w p then Inr (w\<lparr>files := AList.delete p (files w)\<rparr>)
      else Inl (OSError p))"

definition rmdir :: "string \<Rightarrow> world \<Rightarrow> world" where
  "rmdir p w = w\<lparr>dirs := removeAll p (dirs w)\<rparr>"

definition copy2 :: "string \<Rightarrow> string \<Rightarrow> world \<Rightarrow> error + world" where
  "copy2 src dst w = (case read_file w src of Inl e \<Rightarrow> Inl e | Inr c \<Rightarrow> write_file dst c w)"

text \<open>
  The guarded steps \<^verbatim>\<open>if p.exists(): shutil.copy2(p, d / p.name)\<close> of \<^verbatim>\<open>backup_model\<close> and
  \<^verbatim>\<open>if p.exists(): p.unlink()\<close> of \<^verbatim>\<open>delete_model\<close>.
\<close>

definition copy_if_exists :: "string \<Rightarrow> string \<Rightarrow> world \<Rightarrow> error + world" where
  "copy_if_exists p d w = (if path_exists w p then copy2 p (join_path d (path_name p)) w else Inr w)"

definition unlink_if_exists :: "string \<Rightarrow> world \<Rightarrow> error + world" where
  "unlink_if_exists p w = (if path_exists w p then unlink p w else Inr w)"

text \<open>
  Python's \<^verbatim>\<open>s.replace(old, new)\<close>: every non-overlapping occurrence, leftmost first. The
  counter is the number of characters of the current occurrence still to be skipped.
\<close>

fun replace_from :: "string \<Rightarrow> string \<Rightarrow> nat \<Rightarrow> string \<Rightarrow> string" where
  "replace_from old new k [] = (if old = [] then new else [])"
| "replace_from old new (Suc k) (c # cs) = replace_from old new k cs"
| "replace_from old new 0 (c # cs) =
     (if old = [] then new @ c # replace_from old new 0 cs
      else if take (length old) (c # cs) = old then new @ replace_from old new (length old - 1) cs
      else c # replace_from old new 0 cs)"

definition str_replace :: "string \<Rightarrow> string \<Rightarrow> string \<Rightarrow> string" where
  "str_replace s old new = replace_from old new 0 s"

definition endswith :: "string \<Rightarrow> string \<Rightarrow> bool" where
  "endswith s suf = (length suf \<le> length s \<and> drop (length s - length suf) s = suf)"

section \<open>ModelPersistenceManager: the registry document\<close>

definition load_registry :: "string \<Rightarrow> world \<Rightarrow> registry_dict" where
  "load_registry base w =
     (if path_exists w (join_path base ''model_registry.json'') then
        (case read_file w (join_path base ''model_registry.json'') of
           Inr (RegistryDoc r) \<Rightarrow> r
         | _ \<Rightarrow> [])
      else [])"

definition init_manager :: "string \<Rightarrow> string \<Rightarrow> world \<Rightarrow> manager \<times> world" where
  "init_manager base backup w =
     (let w' = mkdir backup (mkdir base w)
      in (\<lparr>base_path = base, backup_path = backup, registry = load_registry base w'\<rparr>, w'))"

definition save_registry :: "manager \<Rightarrow> world \<Rightarrow> error + world" where
  "save_registry mgr w = write_file (registry_file mgr) (RegistryDoc (registry mgr)) w"

definition generate_model_id :: "string \<Rightarrow> string \<Rightarrow> world \<Rightarrow> string \<times> world" where
  "generate_model_id name ver w =
     (let (t, w') = now w in (name @ ''_v'' @ ver @ ''_'' @ strftime_stamp t, w'))"

definition calculate_data_hash :: "world \<Rightarrow> string \<Rightarrow> string" where
  "calculate_data_hash w data_str = md5_hexdigest w data_str"

definition detect_model_type :: "model \<Rightarrow> string" where
  "detect_model_type m =
     (if has_state_dict m then ''pytorch''
      else if is_base_estimator m then ''sklearn''
      else if has_save m then ''tensorflow''
      else ''custom'')"

section \<open>ModelPersistenceManager: reading\<close>

text \<open>
  The loop \<^verbatim>\<open>for name, models in self.registry.items(): if model_id in models: ... break\<close>
  that opens \<^verbatim>\<open>load_model\<close>, \<^verbatim>\<open>delete_model\<close>, \<^verbatim>\<open>backup_model\<close> and \<^verbatim>\<open>get_model_info\<close>.
\<close>

fun find_in_registry :: "registry_dict \<Rightarrow> string \<Rightarrow> (string \<times> registry_entry) option" where
  "find_in_registry [] mid = None"
| "find_in_registry ((name, models) # rest) mid =
     (case map_of models mid of
        Some model_info \<Rightarrow> Some (name, model_info)
      | None \<Rightarrow> find_in_registry rest mid)"

definition load_model :: "string \<Rightarrow> manager \<Rightarrow> world \<Rightarrow> error + (model \<times> model_metadata)" where
  "load_model mid mgr w =
     (case find_in_registry (registry mgr) mid of
        None \<Rightarrow> Inl (ValueError (''Model '' @ mid @ '' not found in registry''))
      | Some (name, model_info) \<Rightarrow>
          if \<not> path_exists w (entry_metadata_path model_info)
          then Inl (FileNotFoundError (''Metadata file not found: '' @ entry_metadata_path model_info))
          else
            (case read_metadata w (entry_metadata_path model_info) of
               Inl e \<Rightarrow> Inl e
             | Inr metadata \<Rightarrow>
                 if \<not> path_exists w (entry_file_path model_info)
                 then Inl (FileNotFoundError (''Model file not found: '' @ entry_file_path model_info))
                 else
                   (case (if model_type metadata = ''pytorch'' then torch_load w (entry_file_path model_info)
                          else if model_type metadata = ''sklearn'' then joblib_load w (entry_file_path model_info)
                          else pickle_load w (entry_file_path model_info)) of
                      Inl e \<Rightarrow> Inl e
                    | Inr m \<Rightarrow> Inr (m, metadata))))"

text \<open>\<^verbatim>\<open>v.get('active', True)\<close>.\<close>

definition get_active :: "registry_entry \<Rightarrow> bool" where
  "get_active v = (case entry_active v of None \<Rightarrow> True | Some b \<Rightarrow> b)"

definition active_models :: "models_dict \<Rightarrow> models_dict" where
  "active_models models = filter (\<lambda>(k, v). get_active v) models"

text \<open>Python's \<^verbatim>\<open>max(xs, key=f)\<close> on a non-empty sequence: the first maximal element.\<close>

definition max_by :: "('a \<Rightarrow> string) \<Rightarrow> 'a \<Rightarrow> 'a list \<Rightarrow> 'a" where
  "max_by f x xs = foldl (\<lambda>best y. if f best < f y then y else best) x xs"

definition load_latest_model :: "string \<Rightarrow> manager \<Rightarrow> world \<Rightarrow> error + (model \<times> model_metadata)" where
  "load_latest_model name mgr w =
     (case map_of (registry mgr) name of
        None \<Rightarrow> Inl (ValueError (''Model '' @ name @ '' not found in registry''))
      | Some models \<Rightarrow>
          (case active_models models of
             [] \<Rightarrow> Inl (ValueError (''No active models found for '' @ name))
           | kv # kvs \<Rightarrow>
               load_model (fst (max_by (\<lambda>x. entry_training_date (snd x)) kv kvs)) mgr w))"

section \<open>ModelPersistenceManager: writing\<close>

text \<open>
  Every operation returns its result together with the manager and the storage as the call
  leaves them, also when it raises: assignments made before the exception stay.
\<close>

definition dict_get :: "('k \<times> 'v) list \<Rightarrow> 'k \<Rightarrow> 'v \<Rightarrow> 'v" where
  "dict_get d k dflt = (case map_of d k of None \<Rightarrow> dflt | Some v \<Rightarrow> v)"

definition registry_insert :: "string \<Rightarrow> string \<Rightarrow> registry_entry \<Rightarrow> registry_dict \<Rightarrow> registry_dict" where
  "registry_insert name mid entry reg =
     AList.update name (AList.update mid entry (dict_get reg name [])) reg"

text \<open>
  The end of \<^verbatim>\<open>save_model\<close>, \<^verbatim>\<open>delete_model\<close> and \<^verbatim>\<open>restore_model\<close>: the registry held in
  memory has been assigned, then \<^verbatim>\<open>self._save_registry()\<close> writes it, then the result is
  returned. When the write raises, the assignment stays.
\<close>

definition commit_registry ::
  "registry_dict \<Rightarrow> 'a \<Rightarrow> manager \<Rightarrow> world \<Rightarrow> (error + 'a) \<times> manager \<times> world" where
  "commit_registry reg result mgr w =
     (let mgr' = mgr\<lparr>registry := reg\<rparr>
      in case save_registry mgr' w of
           Inl e \<Rightarrow> (Inl e, mgr', w)
         | Inr w' \<Rightarrow> (Inr result, mgr', w'))"

text \<open>
  The block of \<^verbatim>\<open>save_model\<close> that chooses the file name and the dump by model type; it
  yields the file path and \<^verbatim>\<open>gpu_compatible\<close>.
\<close>

definition serialize_model ::
  "model \<Rightarrow> string \<Rightarrow> string \<Rightarrow> string \<Rightarrow> world \<Rightarrow> (error + string \<times> bool) \<times> world" where
  "serialize_model m mtype model_dir mid w =
     (if mtype = ''pytorch'' then
        (case write_file (join_path model_dir (mid @ ''.pth'')) (TorchFile m) w of
           Inl e \<Rightarrow> (Inl e, w)
         | Inr w' \<Rightarrow>
             (case parameters_is_cuda m of
                None \<Rightarrow> (Inr (join_path model_dir (mid @ ''.pth''), False), w')
              | Some [] \<Rightarrow> (Inl StopIteration, w')
              | Some (c # cs) \<Rightarrow> (Inr (join_path model_dir (mid @ ''.pth''), c), w')))
      else if mtype = ''sklearn'' then
        (case write_file (join_path model_dir (mid @ ''.pkl'')) (JoblibFile m) w of
           Inl e \<Rightarrow> (Inl e, w)
         | Inr w' \<Rightarrow> (Inr (join_path model_dir (mid @ ''.pkl''), False), w'))
      else
        (case write_file (join_path model_dir (mid @ ''.pkl'')) (PickleFile m) w of
           Inl e \<Rightarrow> (Inl e, w)
         | Inr w' \<Rightarrow> (Inr (join_path model_dir (mid @ ''.pkl''), False), w')))"

text \<open>\<^verbatim>\<open>file_path.stat().st_size\<close>.\<close>

definition stat_st_size :: "world \<Rightarrow> string \<Rightarrow> error + nat" where
  "stat_st_size w p =
     (case map_of (files w) p of
        None \<Rightarrow> Inl (FileNotFoundError p)
      | Some c \<Rightarrow> Inr (st_size w c))"

definition save_model ::
  "model \<Rightarrow> string \<Rightarrow> string \<Rightarrow> (string \<times> real) list \<Rightarrow> string option \<Rightarrow>
   (string \<times> json) list option \<Rightarrow> string option \<Rightarrow> manager \<Rightarrow> world \<Rightarrow>
   (error + string) \<times> manager \<times> world" where
  "save_model m name ver metrics training_data params mtype_opt mgr w =
     (let (mid, w1) = generate_model_id name ver w;
          mtype = (case mtype_opt of None \<Rightarrow> detect_model_type m | Some t \<Rightarrow> t);
          model_dir = join_path (base_path mgr) mid;
          w2 = mkdir model_dir w1
      in case serialize_model m mtype model_dir mid w2 of
           (Inl e, w3) \<Rightarrow> (Inl e, mgr, w3)
         | (Inr (fpath, gpu), w3) \<Rightarrow>
             (case stat_st_size w3 fpath of
                Inl e \<Rightarrow> (Inl e, mgr, w3)
              | Inr fsize \<Rightarrow>
                  (let (t, w4) = now w3;
                       metadata = \<lparr>model_id = mid, model_name = name, model_type = mtype, version = ver,
                                    training_date = isoformat t, performance_metrics = metrics,
                                    parameters = (case params of None \<Rightarrow> [] | Some ps \<Rightarrow> ps),
                                    data_hash = (case training_data of None \<Rightarrow> []
                                                 | Some d \<Rightarrow> calculate_data_hash w3 d),
                                    file_path = fpath, file_size = fsize,
                                    gpu_compatible = gpu,
                                    framework_version = dict_get (framework_versions w3) mtype [],
                                    python_version = dict_get (framework_versions w3) ''python'' [],
                                    dependencies = framework_versions w3\<rparr>;
                       metadata_path = join_path model_dir (mid @ ''_metadata.json'')
                   in case write_file metadata_path (MetadataDoc metadata) w4 of
                        Inl e \<Rightarrow> (Inl e, mgr, w4)
                      | Inr w5 \<Rightarrow>
                          commit_registry
                            (registry_insert name mid
                               \<lparr>entry_version = ver, entry_training_date = training_date metadata,
                                entry_performance_metrics = metrics, entry_file_path = fpath,
                                entry_metadata_path = metadata_path, entry_active = Some True\<rparr>
                               (registry mgr))
                            mid mgr w5)))"

definition backup_model :: "string \<Rightarrow> manager \<Rightarrow> world \<Rightarrow> (error + string) \<times> world" where
  "backup_model mid mgr w =
     (case find_in_registry (registry mgr) mid of
        None \<Rightarrow> (Inl (ValueError (''Model '' @ mid @ '' not found in registry'')), w)
      | Some (name, model_info) \<Rightarrow>
          (let (t, w1) = now w;
               backup_dir = join_path (backup_path mgr) (mid @ ''_'' @ strftime_stamp t);
               w2 = mkdir backup_dir w1;
               model_path = entry_file_path model_info;
               metadata_path = entry_metadata_path model_info
           in case copy_if_exists model_path backup_dir w2 of
                Inl e \<Rightarrow> (Inl e, w2)
              | Inr w3 \<Rightarrow>
                  (case copy_if_exists metadata_path backup_dir w3 of
                     Inl e \<Rightarrow> (Inl e, w3)
                   | Inr w4 \<Rightarrow> (Inr backup_dir, w4))))"

definition registry_remove :: "string \<Rightarrow> string \<Rightarrow> registry_dict \<Rightarrow> registry_dict" where
  "registry_remove name mid reg =
     (let models = AList.delete mid (dict_get reg name [])
      in if models = [] then AList.delete name reg else AList.update name models reg)"

text \<open>
  The block of \<^verbatim>\<open>delete_model\<close> that unlinks the two files and removes the model directory
  when it is empty.
\<close>

definition remove_model_files :: "registry_entry \<Rightarrow> world \<Rightarrow> (error + unit) \<times> world" where
  "remove_model_files model_info w =
     (let model_path = entry_file_path model_info;
          metadata_path = entry_metadata_path model_info
      in case unlink_if_exists model_path w of
           Inl e \<Rightarrow> (Inl e, w)
         | Inr w2 \<Rightarrow>
             (case unlink_if_exists metadata_path w2 of
                Inl e \<Rightarrow> (Inl e, w2)
              | Inr w3 \<Rightarrow>
                  (let model_dir = path_parent model_path in
                   if is_file w3 model_dir then (Inl (OSError model_dir), w3)
                   else if path_exists w3 model_dir \<and> iterdir_files w3 model_dir = []
                           \<and> iterdir_dirs w3 model_dir = []
                   then (Inr (), rmdir model_dir w3)
                   else (Inr (), w3))))"

definition delete_model :: "string \<Rightarrow> bool \<Rightarrow> manager \<Rightarrow> world \<Rightarrow> (error + bool) \<times> manager \<times> world" where
  "delete_model mid create_backup mgr w =
     (case find_in_registry (registry mgr) mid of
        None \<Rightarrow> (Inl (ValueError (''Model '' @ mid @ '' not found in registry'')), mgr, w)
      | Some (name, model_info) \<Rightarrow>
          (case (if create_backup then backup_model mid mgr w else (Inr [], w)) of
             (Inl e, w1) \<Rightarrow> (Inl e, mgr, w1)
           | (Inr b, w1) \<Rightarrow>
               (case remove_model_files model_info w1 of
                  (Inl e, w2) \<Rightarrow> (Inl e, mgr, w2)
                | (Inr u, w2) \<Rightarrow>
                    commit_registry (registry_remove name mid (registry mgr)) True mgr w2)))"

text \<open>The loop of \<^verbatim>\<open>restore_model\<close> that copies the files of the backup directory.\<close>

fun copy_renamed ::
  "string list \<Rightarrow> string \<Rightarrow> string \<Rightarrow> string \<Rightarrow> world \<Rightarrow> (error + unit) \<times> world" where
  "copy_renamed [] model_dir original_id new_id w = (Inr (), w)"
| "copy_renamed (p # ps) model_dir original_id new_id w =
     (case copy2 p (join_path model_dir (str_replace (path_name p) original_id new_id)) w of
        Inl e \<Rightarrow> (Inl e, w)
      | Inr w' \<Rightarrow> copy_renamed ps model_dir original_id new_id w')"

definition restore_model :: "string \<Rightarrow> manager \<Rightarrow> world \<Rightarrow> (error + string) \<times> manager \<times> world" where
  "restore_model bpath mgr w =
     (if \<not> path_exists w bpath
      then (Inl (FileNotFoundError (''Backup directory not found: '' @ bpath)), mgr, w)
      else
        (case filter (\<lambda>p. endswith (path_name p) ''_metadata.json'')
                (iterdir_files w bpath @ iterdir_dirs w bpath) of
           [] \<Rightarrow> (Inl (FileNotFoundError ''No metadata file found in backup''), mgr, w)
         | metadata_file # others \<Rightarrow>
             (case read_metadata w metadata_file of
                Inl e \<Rightarrow> (Inl e, mgr, w)
              | Inr metadata \<Rightarrow>
                  (let original_model_id = model_id metadata;
                       (new_model_id, w1) =
                          generate_model_id (model_name metadata) (version metadata @ ''_restored'') w;
                       model_dir = join_path (base_path mgr) new_model_id;
                       w2 = mkdir model_dir w1
                   in case copy_renamed (iterdir_files w2 bpath) model_dir original_model_id new_model_id w2 of
                        (Inl e, w3) \<Rightarrow> (Inl e, mgr, w3)
                      | (Inr u, w3) \<Rightarrow>
                          (let metadata' = metadata\<lparr>model_id := new_model_id,
                                 file_path := join_path model_dir
                                   (new_model_id @ ''.'' @ drop 1 (path_suffix (file_path metadata)))\<rparr>;
                               new_metadata_path = join_path model_dir (new_model_id @ ''_metadata.json'')
                           in case write_file new_metadata_path (MetadataDoc metadata') w3 of
                                Inl e \<Rightarrow> (Inl e, mgr, w3)
                              | Inr w4 \<Rightarrow>
                                  commit_registry
                                    (registry_insert (model_name metadata) new_model_id
                                       \<lparr>entry_version = version metadata @ ''_restored'',
                                        entry_training_date = training_date metadata,
                                        entry_performance_metrics = performance_metrics metadata,
                                        entry_file_path = file_path metadata',
                                        entry_metadata_path = new_metadata_path,
                                        entry_active = Some True\<rparr>
                                       (registry mgr))
                                    new_model_id mgr w4)))))"

text \<open>
  \<^verbatim>\<open>sorted(items, key=..., reverse=True)\<close> is stable: entries with equal keys keep their
  order. \<^verbatim>\<open>xs[k:]\<close> counts a negative \<open>k\<close> from the end.
\<close>

definition sorted_reverse :: "('a \<Rightarrow> string) \<Rightarrow> 'a list \<Rightarrow> 'a list" where
  "sorted_reverse f xs = rev (sort_key f (rev xs))"

definition slice_from :: "int \<Rightarrow> 'a list \<Rightarrow> 'a list" where
  "slice_from k xs = (if 0 \<le> k then drop (nat k) xs else drop (length xs - nat (- k)) xs)"

fun delete_each :: "string list \<Rightarrow> manager \<Rightarrow> world \<Rightarrow> string list \<times> manager \<times> world" where
  "delete_each [] mgr w = ([], mgr, w)"
| "delete_each (mid # rest) mgr w =
     (case delete_model mid True mgr w of
        (Inl e, mgr', w') \<Rightarrow> delete_each rest mgr' w'
      | (Inr ok, mgr', w') \<Rightarrow>
          (case delete_each rest mgr' w' of (deleted_ids, mgr'', w'') \<Rightarrow> (mid # deleted_ids, mgr'', w'')))"

definition cleanup_old_models :: "string \<Rightarrow> int \<Rightarrow> manager \<Rightarrow> world \<Rightarrow> string list \<times> manager \<times> world" where
  "cleanup_old_models name keep_versions mgr w =
     (case map_of (registry mgr) name of
        None \<Rightarrow> ([], mgr, w)
      | Some models \<Rightarrow>
          if int (length (active_models models)) \<le> keep_versions then ([], mgr, w)
          else delete_each
                 (map fst (slice_from keep_versions
                    (sorted_reverse (\<lambda>x. entry_training_date (snd x)) (active_models models))))
                 mgr w)"

section \<open>ModelInferencePipeline\<close>

definition init_pipeline :: "manager \<Rightarrow> pipeline" where
  "init_pipeline mgr = \<lparr>persistence_manager = mgr, loaded_models = [], model_metadata = []\<rparr>"

definition load_model_for_inference ::
  "string \<Rightarrow> string option \<Rightarrow> pipeline \<Rightarrow> world \<Rightarrow> (error + string) \<times> pipeline" where
  "load_model_for_inference name mid_opt pl w =
     (case mid_opt of
        None \<Rightarrow>
          (case load_latest_model name (persistence_manager pl) w of
             Inl e \<Rightarrow> (Inl e, pl)
           | Inr (m, metadata) \<Rightarrow>
               (Inr (model_id metadata),
                pl\<lparr>loaded_models := AList.update (model_id metadata) m (loaded_models pl),
                   model_metadata := AList.update (model_id metadata) metadata (model_metadata pl)\<rparr>))
      | Some mid \<Rightarrow>
          (case load_model mid (persistence_manager pl) w of
             Inl e \<Rightarrow> (Inl e, pl)
           | Inr (m, metadata) \<Rightarrow>
               (Inr mid,
                pl\<lparr>loaded_models := AList.update mid m (loaded_models pl),
                   model_metadata := AList.update mid metadata (model_metadata pl)\<rparr>)))"

definition tolist :: "pyobj \<Rightarrow> error + pyval" where
  "tolist p = (case p of Plain v \<Rightarrow> Inl (AttributeError ''tolist'') | NdArray v \<Rightarrow> Inr v | Tensor v \<Rightarrow> Inr v)"

text \<open>
  The three branches of \<^verbatim>\<open>predict\<close> on \<^verbatim>\<open>metadata.model_type\<close>; each yields the raw
  prediction and, on the sklearn branch, the raw probabilities.
\<close>

definition raw_predict :: "model \<Rightarrow> model_metadata \<Rightarrow> pyobj \<Rightarrow> error + (pyobj \<times> pyobj option)" where
  "raw_predict m metadata input_data =
     (if model_type metadata = ''pytorch'' then
        (if \<not> has_eval m then Inl (AttributeError ''eval'')
         else
           (let input_tensor = (case input_data of NdArray v \<Rightarrow> Tensor v | x \<Rightarrow> x) in
            case forward m of
              None \<Rightarrow> Inl (AttributeError ''__call__'')
            | Some f \<Rightarrow>
                (case f input_tensor of
                   Inl e \<Rightarrow> Inl e
                 | Inr prediction \<Rightarrow>
                     Inr (case prediction of Tensor v \<Rightarrow> NdArray v | x \<Rightarrow> x, None))))
      else if model_type metadata = ''sklearn'' then
        (case predict_attr m of
           None \<Rightarrow> Inl (AttributeError ''predict'')
         | Some f \<Rightarrow>
             (case f input_data of
                Inl e \<Rightarrow> Inl e
              | Inr prediction \<Rightarrow>
                  (case predict_proba_attr m of
                     None \<Rightarrow> Inr (prediction, None)
                   | Some g \<Rightarrow>
                       (case g input_data of
                          Inl e \<Rightarrow> Inl e
                        | Inr probabilities \<Rightarrow> Inr (prediction, Some probabilities)))))
      else
        (case predict_attr m of
           None \<Rightarrow> Inl (ValueError (''Model type '' @ model_type metadata @ '' does not support prediction''))
         | Some f \<Rightarrow>
             (case f input_data of
                Inl e \<Rightarrow> Inl e
              | Inr prediction \<Rightarrow> Inr (prediction, None))))"

text \<open>
  \<^verbatim>\<open>prediction.tolist() if hasattr(prediction, 'tolist') else prediction\<close>: an array or a
  tensor is converted by \<^verbatim>\<open>tolist\<close>, plain data is passed on as it is.
\<close>

definition prediction_field :: "pyobj \<Rightarrow> pyval" where
  "prediction_field prediction =
     (case prediction of NdArray v \<Rightarrow> v | Tensor v \<Rightarrow> v | Plain v \<Rightarrow> v)"

definition predict :: "string \<Rightarrow> pyobj \<Rightarrow> pipeline \<Rightarrow> world \<Rightarrow> (error + prediction_result) \<times> world" where
  "predict mid input_data pl w =
     (case map_of (loaded_models pl) mid of
        None \<Rightarrow> (Inl (ValueError (''Model '' @ mid @ '' not loaded. Call load_model_for_inference first.'')), w)
      | Some m \<Rightarrow>
          (case map_of (model_metadata pl) mid of
             None \<Rightarrow> (Inl (KeyError mid), w)
           | Some metadata \<Rightarrow>
               (case raw_predict m metadata input_data of
                  Inl e \<Rightarrow> (Inl e, w)
                | Inr (prediction, probabilities) \<Rightarrow>
                    (let (t, w') = now w;
                         result = \<lparr>r_prediction = prediction_field prediction, r_model_id = mid,
                                   r_model_name = model_name metadata, r_model_version = version metadata,
                                   r_timestamp = isoformat t, r_probabilities = None\<rparr>
                     in case probabilities of
                          None \<Rightarrow> (Inr result, w')
                        | Some pr \<Rightarrow>
                            (case tolist pr of
                               Inl e \<Rightarrow> (Inl e, w')
                             | Inr prl \<Rightarrow> (Inr (result\<lparr>r_probabilities := Some prl\<rparr>), w'))))))"

definition unload_model :: "string \<Rightarrow> pipeline \<Rightarrow> (error + unit) \<times> pipeline" where
  "unload_model mid pl =
     (if mid \<in> set (map fst (loaded_models pl)) then
        (let pl1 = pl\<lparr>loaded_models := AList.delete mid (loaded_models pl)\<rparr> in
         if mid \<in> set (map fst (model_metadata pl1))
         then (Inr (), pl1\<lparr>model_metadata := AList.delete mid (model_metadata pl1)\<rparr>)
         else (Inl (KeyError mid), pl1))
      else (Inr (), pl))"

definition get_loaded_models :: "pipeline \<Rightarrow> string list" where
  "get_loaded_models pl = map fst (loaded_models pl)"

definition clear_cache :: "pipeline \<Rightarrow> pipeline" where
  "clear_cache pl = pl\<lparr>loaded_models := [], model_metadata := []\<rparr>"

text \<open>
  A run of the pipeline: each cache operation is executed in the storage state it meets, and
  between two of them the persistence manager may have been used directly.
\<close>

datatype pipeline_op =
    LoadForInference string "string option" world
  | Predict string pyobj world
  | UnloadModel string
  | ClearCache
  | ManagerChanged manager

fun step :: "pipeline \<Rightarrow> pipeline_op \<Rightarrow> pipeline" where
  "step pl (LoadForInference name mid_opt w) = snd (load_model_for_inference name mid_opt pl w)"
| "step pl (Predict mid input_data w) = pl"
| "step pl (UnloadModel mid) = snd (unload_model mid pl)"
| "step pl ClearCache = clear_cache pl"
| "step pl (ManagerChanged mgr) = pl\<lparr>persistence_manager := mgr\<rparr>"

definition co_indexed :: "pipeline \<Rightarrow> bool" where
  "co_indexed pl = (map fst (loaded_models pl) = map fst (model_metadata pl))"

definition is_sequence :: "pyval \<Rightarrow> bool" where
  "is_sequence v = (case v of PyList vs \<Rightarrow> True | PyNum x \<Rightarrow> False)"

section \<open>Example states\<close>

text \<open>
  A custom model whose \<^verbatim>\<open>predict\<close> returns the bare Python number 1, an empty storage whose
  clock stands at noon of 1 March 2024, and a manager with an empty registry.
\<close>

definition scalar_model :: model where
  "scalar_model = \<lparr>has_state_dict = False, is_base_estimator = False, has_save = False,
     parameters_is_cuda = None, has_eval = False, forward = None,
     predict_attr = Some (\<lambda>x. Inr (Plain (PyNum 1))), predict_proba_attr = None\<rparr>"

definition noon :: datetime where
  "noon = \<lparr>strftime_stamp = ''20240301_120000'', isoformat = ''2024-03-01T12:00:00''\<rparr>"

definition empty_world :: world where
  "empty_world = \<lparr>files = [], dirs = [''models'', ''models/backups''], write_fails = (\<lambda>p. False),
     clock = (\<lambda>n. noon), ticks = 0, md5_hexdigest = (\<lambda>s. ''d41d8cd98f00b204e9800998ecf8427e''),
     framework_versions = [(''python'', ''3.11'')], st_size = (\<lambda>c. 100)\<rparr>"

definition empty_manager :: manager where
  "empty_manager = \<lparr>base_path = ''models'', backup_path = ''models/backups'', registry = []\<rparr>"

text \<open>The state after saving the scalar model as version 1 of \<^verbatim>\<open>stress\<close>.\<close>

definition saved_state :: "(error + string) \<times> manager \<times> world" where
  "saved_state = save_model scalar_model ''stress'' ''1'' [(''accuracy'', 1)] None None None
                   empty_manager empty_world"

definition saved_manager :: manager where
  "saved_manager = fst (snd saved_state)"

definition saved_world :: world where
  "saved_world = snd (snd saved_state)"

definition stress_id :: string where
  "stress_id = ''stress_v1_20240301_120000''"

definition prepared_pipeline :: pipeline where
  "prepared_pipeline =
     snd (load_model_for_inference ''stress'' None (init_pipeline saved_manager) saved_world)"

text \<open>
  A registry entry whose metadata file exists but is not a JSON document, and whose artifact
  file is absent.
\<close>

definition corrupt_manager :: manager where
  "corrupt_manager = \<lparr>base_path = ''models'', backup_path = ''models/backups'',
     registry = [(''stress'', [(''stress_v1'',
       \<lparr>entry_version = ''1'', entry_training_date = ''2024-03-01T12:00:00'',
        entry_performance_metrics = [], entry_file_path = ''models/stress_v1/stress_v1.pkl'',
        entry_metadata_path = ''models/stress_v1/stress_v1_metadata.json'',
        entry_active = Some True\<rparr>)])]\<rparr>"

definition corrupt_world :: world where
  "corrupt_world = empty_world\<lparr>files := [(''models/stress_v1/stress_v1_metadata.json'', OtherFile ''{'')],
     dirs := [''models'', ''models/backups'', ''models/stress_v1'']\<rparr>"

definition stress_metadata :: model_metadata where
  "stress_metadata = \<lparr>model_id = ''stress_v1_20240301_120000'', model_name = ''stress'',
     model_type = ''custom'', version = ''1'', training_date = ''2024-03-01T12:00:00'',
     performance_metrics = [(''accuracy'', 1)], parameters = [], data_hash = [],
     file_path = ''models/stress_v1_20240301_120000/stress_v1_20240301_120000.pkl'',
     file_size = 100, gpu_compatible = False, framework_version = [], python_version = ''3.11'',
     dependencies = [(''python'', ''3.11'')]\<rparr>"

text \<open>The saved state with the artifact file removed from storage.\<close>

definition no_artifact_world :: world where
  "no_artifact_world = saved_world\<lparr>files :=
     AList.delete ''models/stress_v1_20240301_120000/stress_v1_20240301_120000.pkl'' (files saved_world)\<rparr>"

definition example_ops :: "pipeline_op list" where
  "example_ops = [LoadForInference ''stress'' None saved_world,
                  Predict stress_id (NdArray (PyList [PyList [PyNum 3]])) saved_world,
                  UnloadModel ''other'', ManagerChanged empty_manager]"

text \<open>
  Registry entries, metadata documents and files laid out as \<^verbatim>\<open>save_model\<close> lays them out, for
  hand-built registries.
\<close>

definition example_entry :: "string \<Rightarrow> string \<Rightarrow> bool option \<Rightarrow> registry_entry" where
  "example_entry mid date act =
     \<lparr>entry_version = ''1'', entry_training_date = date, entry_performance_metrics = [],
      entry_file_path = ''models/'' @ mid @ ''/'' @ mid @ ''.pkl'',
      entry_metadata_path = ''models/'' @ mid @ ''/'' @ mid @ ''_metadata.json'',
      entry_active = act\<rparr>"

definition example_metadata :: "string \<Rightarrow> string \<Rightarrow> model_metadata" where
  "example_metadata mid date =
     \<lparr>model_id = mid, model_name = ''stress'', model_type = ''custom'', version = ''1'',
      training_date = date, performance_metrics = [], parameters = [], data_hash = [],
      file_path = ''models/'' @ mid @ ''/'' @ mid @ ''.pkl'', file_size = 100,
      gpu_compatible = False, framework_version = [], python_version = ''3.11'',
      dependencies = [(''python'', ''3.11'')]\<rparr>"

definition example_files :: "string \<Rightarrow> string \<Rightarrow> (string \<times> content) list" where
  "example_files mid date =
     [(''models/'' @ mid @ ''/'' @ mid @ ''.pkl'', PickleFile scalar_model),
      (''models/'' @ mid @ ''/'' @ mid @ ''_metadata.json'', MetadataDoc (example_metadata mid date))]"

text \<open>Three active versions of one name, trained in January, March and the December before.\<close>

definition latest_models :: models_dict where
  "latest_models =
     [(''jan'', example_entry ''jan'' ''2024-01-01T00:00:00Z'' (Some True)),
      (''mar'', example_entry ''mar'' ''2024-03-01T00:00:00Z'' (Some True)),
      (''dec'', example_entry ''dec'' ''2023-12-01T00:00:00Z'' (Some True))]"

definition latest_manager :: manager where
  "latest_manager = \<lparr>base_path = ''models'', backup_path = ''models/backups'',
     registry = [(''stress'', latest_models)]\<rparr>"




text \<open>Two versions, the newer one read from a registry document without the \<^verbatim>\<open>active\<close> key.\<close>

definition flagless_models :: models_dict where
  "flagless_models =
     [(''old'', example_entry ''old'' ''2023-12-01T00:00:00Z'' (Some True)),
      (''new'', example_entry ''new'' ''2024-03-01T00:00:00Z'' None)]"

definition flagless_manager :: manager where
  "flagless_manager = latest_manager\<lparr>registry := [(''stress'', flagless_models)]\<rparr>"

definition flagless_world :: world where
  "flagless_world = empty_world\<lparr>files :=
     example_files ''old'' ''2023-12-01T00:00:00Z'' @ example_files ''new'' ''2024-03-01T00:00:00Z''\<rparr>"




text \<open>
  A torch model, and two saves within one second whose names and versions concatenate to the
  same identifier: \<^verbatim>\<open>a_v1\<close> version \<^verbatim>\<open>2\<close>, then \<^verbatim>\<open>a\<close> version \<^verbatim>\<open>1_v2\<close>.
\<close>

definition torch_model :: model where
  "torch_model = \<lparr>has_state_dict = True, is_base_estimator = False, has_save = False,
     parameters_is_cuda = Some [False], has_eval = True, forward = Some (\<lambda>x. Inr x),
     predict_attr = None, predict_proba_attr = None\<rparr>"

definition first_save :: "(error + string) \<times> manager \<times> world" where
  "first_save = save_model torch_model ''a_v1'' ''2'' [] None None None empty_manager empty_world"

definition second_save :: "(error + string) \<times> manager \<times> world" where
  "second_save = save_model scalar_model ''a'' ''1_v2'' [] None None None
                   (fst (snd first_save)) (snd (snd first_save))"

definition collision_id :: string where
  "collision_id = ''a_v1_v2_20240301_120000''"

definition collided_manager :: manager where
  "collided_manager = fst (snd second_save)"

definition collided_world :: world where
  "collided_world = snd (snd second_save)"

definition entry_of_a :: registry_entry where
  "entry_of_a = \<lparr>entry_version = ''1_v2'', entry_training_date = ''2024-03-01T12:00:00'',
     entry_performance_metrics = [],
     entry_file_path = ''models/a_v1_v2_20240301_120000/a_v1_v2_20240301_120000.pkl'',
     entry_metadata_path = ''models/a_v1_v2_20240301_120000/a_v1_v2_20240301_120000_metadata.json'',
     entry_active = Some True\<rparr>"

definition entry_of_a_v1 :: registry_entry where
  "entry_of_a_v1 = \<lparr>entry_version = ''2'', entry_training_date = ''2024-03-01T12:00:00'',
     entry_performance_metrics = [],
     entry_file_path = ''models/a_v1_v2_20240301_120000/a_v1_v2_20240301_120000.pth'',
     entry_metadata_path = ''models/a_v1_v2_20240301_120000/a_v1_v2_20240301_120000_metadata.json'',
     entry_active = Some True\<rparr>"

text \<open>
  After the two saves: deleting the identifier and restoring the backup of that deletion, and
  cleaning up \<^verbatim>\<open>a\<close> keeping no version.
\<close>

definition collision_delete :: "(error + bool) \<times> manager \<times> world" where
  "collision_delete = delete_model collision_id True collided_manager collided_world"

definition collision_restore :: "(error + string) \<times> manager \<times> world" where
  "collision_restore =
     restore_model ''models/backups/a_v1_v2_20240301_120000_20240301_120000''
       (fst (snd collision_delete)) (snd (snd collision_delete))"

definition collision_cleanup :: "string list \<times> manager \<times> world" where
  "collision_cleanup = cleanup_old_models ''a'' 0 collided_manager collided_world"

text \<open>
  Within one second: the saved \<^verbatim>\<open>stress\<close> model is deleted and restored from the backup of the
  deletion, then the restored model is deleted and restored from the backup of that deletion.
\<close>

definition restored_id :: string where
  "restored_id = ''stress_v1_restored_20240301_120000''"

definition chain_delete1 :: "(error + bool) \<times> manager \<times> world" where
  "chain_delete1 = delete_model stress_id True saved_manager saved_world"

definition chain_restore1 :: "(error + string) \<times> manager \<times> world" where
  "chain_restore1 =
     restore_model ''models/backups/stress_v1_20240301_120000_20240301_120000''
       (fst (snd chain_delete1)) (snd (snd chain_delete1))"

definition chain_delete2 :: "(error + bool) \<times> manager \<times> world" where
  "chain_delete2 = delete_model restored_id True (fst (snd chain_restore1)) (snd (snd chain_restore1))"

definition chain_restore2 :: "(error + string) \<times> manager \<times> world" where
  "chain_restore2 =
     restore_model ''models/backups/stress_v1_restored_20240301_120000_20240301_120000''
       (fst (snd chain_delete2)) (snd (snd chain_delete2))"

text \<open>Seven active versions of one name, trained on the first of seven successive months.\<close>

definition seven_models :: models_dict where
  "seven_models =
     [(''m03'', example_entry ''m03'' ''2024-03-01T00:00:00Z'' (Some True)),
      (''m01'', example_entry ''m01'' ''2024-01-01T00:00:00Z'' (Some True)),
      (''m07'', example_entry ''m07'' ''2024-07-01T00:00:00Z'' (Some True)),
      (''m02'', example_entry ''m02'' ''2024-02-01T00:00:00Z'' (Some True)),
      (''m05'', example_entry ''m05'' ''2024-05-01T00:00:00Z'' (Some True)),
      (''m04'', example_entry ''m04'' ''2024-04-01T00:00:00Z'' (Some True)),
      (''m06'', example_entry ''m06'' ''2024-06-01T00:00:00Z'' (Some True))]"

definition seven_manager :: manager where
  "seven_manager = latest_manager\<lparr>registry := [(''stress'', seven_models)]\<rparr>"

definition seven_world :: world where
  "seven_world = empty_world\<lparr>files :=
     concat (map (\<lambda>(k, v). example_files k (entry_training_date v)) seven_models)\<rparr>"

text \<open>
  A custom model whose \<^verbatim>\<open>predict\<close> returns its input, saved as version 1 of \<^verbatim>\<open>echo\<close> and then
  loaded for inference by its identifier.
\<close>

definition echo_model :: model where
  "echo_model = \<lparr>has_state_dict = False, is_base_estimator = False, has_save = False,
     parameters_is_cuda = None, has_eval = False, forward = None,
     predict_attr = Some (\<lambda>x. Inr x), predict_proba_attr = None\<rparr>"

definition echo_state :: "(error + string) \<times> manager \<times> world" where
  "echo_state = save_model echo_model ''echo'' ''1'' [] None None None empty_manager empty_world"

definition echo_manager :: manager where
  "echo_manager = fst (snd echo_state)"

definition echo_world :: world where
  "echo_world = snd (snd echo_state)"

definition echo_id :: string where
  "echo_id = ''echo_v1_20240301_120000''"

definition echo_metadata :: model_metadata where
  "echo_metadata = \<lparr>model_id = ''echo_v1_20240301_120000'', model_name = ''echo'',
     model_type = ''custom'', version = ''1'', training_date = ''2024-03-01T12:00:00'',
     performance_metrics = [], parameters = [], data_hash = [],
     file_path = ''models/echo_v1_20240301_120000/echo_v1_20240301_120000.pkl'',
     file_size = 100, gpu_compatible = False, framework_version = [], python_version = ''3.11'',
     dependencies = [(''python'', ''3.11'')]\<rparr>"

definition echo_pipeline :: pipeline where
  "echo_pipeline =
     snd (load_model_for_inference ''echo'' (Some echo_id) (init_pipeline echo_manager) echo_world)"

text \<open>
  An estimator that returns its input and fixed class probabilities, and a pipeline whose
  caches hold one given model under the identifier \<^verbatim>\<open>m\<close>.
\<close>

definition estimator_model :: model where
  "estimator_model = \<lparr>has_state_dict = False, is_base_estimator = True, has_save = False,
     parameters_is_cuda = None, has_eval = False, forward = None,
     predict_attr = Some (\<lambda>x. Inr x),
     predict_proba_attr = Some (\<lambda>x. Inr (NdArray (PyList [PyList [PyNum 0, PyNum 1]])))\<rparr>"

definition cached_pipeline :: "model \<Rightarrow> string \<Rightarrow> pipeline" where
  "cached_pipeline m mtype =
     \<lparr>persistence_manager = empty_manager, loaded_models = [(''m'', m)],
      model_metadata = [(''m'', echo_metadata\<lparr>model_id := ''m'', model_type := mtype\<rparr>)]\<rparr>"

section \<open>Evaluation of the definitions\<close>

lemmas world_defs = join_path_def now_def path_exists_def is_file_def write_file_def mkdir_def
  copy_if_exists_def unlink_if_exists_def
  registry_file_def read_file_def read_metadata_def torch_load_def joblib_load_def pickle_load_def
  unlink_def rmdir_def copy2_def iterdir_files_def iterdir_dirs_def

lemmas manager_defs = load_model_def load_latest_model_def active_models_def get_active_def max_by_def
  save_registry_def generate_model_id_def detect_model_type_def dict_get_def registry_insert_def
  registry_remove_def save_model_def backup_model_def delete_model_def restore_model_def
  commit_registry_def serialize_model_def stat_st_size_def remove_model_files_def

lemmas pipeline_defs = init_pipeline_def load_model_for_inference_def raw_predict_def
  prediction_field_def predict_def unload_model_def clear_cache_def tolist_def

lemmas example_defs = scalar_model_def noon_def empty_world_def empty_manager_def saved_state_def
  saved_manager_def saved_world_def stress_id_def prepared_pipeline_def corrupt_manager_def
  corrupt_world_def stress_metadata_def no_artifact_world_def example_ops_def

lemma saved_state_result: "fst saved_state = Inr stress_id"
  by (simp add: world_defs manager_defs example_defs Let_def)

lemma saved_registry:
  "registry saved_manager = [(''stress'', [(stress_id,
     \<lparr>entry_version = ''1'', entry_training_date = ''2024-03-01T12:00:00'',
      entry_performance_metrics = [(''accuracy'', 1)],
      entry_file_path = ''models/stress_v1_20240301_120000/stress_v1_20240301_120000.pkl'',
      entry_metadata_path = ''models/stress_v1_20240301_120000/stress_v1_20240301_120000_metadata.json'',
      entry_active = Some True\<rparr>)])]"
  by (simp add: world_defs manager_defs example_defs Let_def)

lemma saved_files:
  "files saved_world =
     [(''models/stress_v1_20240301_120000/stress_v1_20240301_120000.pkl'', PickleFile scalar_model),
      (''models/stress_v1_20240301_120000/stress_v1_20240301_120000_metadata.json'',
         MetadataDoc stress_metadata),
      (''models/model_registry.json'', RegistryDoc (registry saved_manager))]"
  by (simp add: world_defs manager_defs example_defs Let_def)

lemma saved_dirs: "dirs saved_world = [''models'', ''models/backups'', ''models/stress_v1_20240301_120000'']"
  by (simp add: world_defs manager_defs example_defs Let_def)

lemma saved_load: "load_model stress_id saved_manager saved_world = Inr (scalar_model, stress_metadata)"
  by (simp add: load_model_def saved_registry saved_files saved_dirs world_defs stress_metadata_def)

lemma saved_load_latest:
  "load_latest_model ''stress'' saved_manager saved_world = Inr (scalar_model, stress_metadata)"
  using saved_load
  by (simp add: load_latest_model_def saved_registry active_models_def get_active_def max_by_def)

lemma prepared_result:
  "load_model_for_inference ''stress'' None (init_pipeline saved_manager) saved_world
     = (Inr stress_id, prepared_pipeline)"
  by (simp add: prepared_pipeline_def load_model_for_inference_def init_pipeline_def saved_load_latest
        stress_metadata_def stress_id_def)

lemma prepared_caches:
  "loaded_models prepared_pipeline = [(stress_id, scalar_model)]
   \<and> model_metadata prepared_pipeline = [(stress_id, stress_metadata)]"
  by (simp add: prepared_pipeline_def load_model_for_inference_def init_pipeline_def saved_load_latest
        stress_metadata_def stress_id_def)

lemma prepared_predict:
  "predict stress_id (NdArray (PyList [PyList [PyNum 3]])) prepared_pipeline saved_world
     = (Inr \<lparr>r_prediction = PyNum 1, r_model_id = stress_id, r_model_name = ''stress'',
              r_model_version = ''1'', r_timestamp = isoformat (clock saved_world (ticks saved_world)),
              r_probabilities = None\<rparr>,
        saved_world\<lparr>ticks := Suc (ticks saved_world)\<rparr>)"
  by (simp add: predict_def prepared_caches raw_predict_def prediction_field_def now_def Let_def
        stress_metadata_def scalar_model_def)

section \<open>Properties of the inference cache\<close>

lemma co_indexed_load:
  "co_indexed pl \<Longrightarrow> co_indexed (snd (load_model_for_inference name mid_opt pl w))"
  unfolding co_indexed_def load_model_for_inference_def
  by (simp add: update_keys split: option.splits sum.splits prod.splits)

lemma co_indexed_unload: "co_indexed pl \<Longrightarrow> co_indexed (snd (unload_model mid pl))"
  unfolding co_indexed_def unload_model_def Let_def
  by (simp add: delete_keys)

lemma co_indexed_step: "co_indexed pl \<Longrightarrow> co_indexed (step pl op)"
  by (cases op)
     (simp_all add: co_indexed_load co_indexed_unload, simp_all add: co_indexed_def clear_cache_def)

lemma co_indexed_foldl: "co_indexed pl \<Longrightarrow> co_indexed (foldl step pl ops)"
  by (induction ops arbitrary: pl) (simp_all add: co_indexed_step)

text \<open>
  C9. Starting from the empty cache of a new pipeline, after any sequence of
  \<^verbatim>\<open>load_model_for_inference\<close>, \<^verbatim>\<open>predict\<close>, \<^verbatim>\<open>unload_model\<close> and \<^verbatim>\<open>clear_cache\<close> calls (in any
  storage states, with the manager used in between), the model identifiers keying
  \<^verbatim>\<open>loaded_models\<close> are exactly those keying \<^verbatim>\<open>model_metadata\<close>.
\<close>

theorem cache_co_indexed:
  "fst ` set (loaded_models (foldl step (init_pipeline mgr) ops))
     = fst ` set (model_metadata (foldl step (init_pipeline mgr) ops))"
proof -
  have "co_indexed (init_pipeline mgr)" by (simp add: co_indexed_def init_pipeline_def)
  then have "co_indexed (foldl step (init_pipeline mgr) ops)" by (rule co_indexed_foldl)
  then show ?thesis unfolding co_indexed_def by (metis list.set_map)
qed

theorem cache_co_indexed_witness:
  "fst ` set (loaded_models (foldl step (init_pipeline saved_manager) example_ops)) = {stress_id}
   \<and> fst ` set (model_metadata (foldl step (init_pipeline saved_manager) example_ops)) = {stress_id}"
proof -
  have "foldl step (init_pipeline saved_manager) example_ops
          = snd (unload_model ''other'' prepared_pipeline)\<lparr>persistence_manager := empty_manager\<rparr>"
    by (simp add: example_ops_def prepared_result)
  then have "loaded_models (foldl step (init_pipeline saved_manager) example_ops)
               = [(stress_id, scalar_model)]"
    by (simp add: unload_model_def prepared_caches stress_id_def)
  then have "fst ` set (loaded_models (foldl step (init_pipeline saved_manager) example_ops)) = {stress_id}"
    by simp
  with cache_co_indexed[of saved_manager example_ops] show ?thesis by simp
qed

lemma predict_not_loaded:
  "map_of (loaded_models pl) mid = None \<Longrightarrow>
   predict mid x pl w =
     (Inl (ValueError (''Model '' @ mid @ '' not loaded. Call load_model_for_inference first.'')), w)"
  by (simp add: predict_def)

lemma predict_storage_independent:
  "fst (predict mid x (pl\<lparr>persistence_manager := mgr_b\<rparr>) (w\<lparr>files := fs, dirs := ds, write_fails := wfl\<rparr>))
     = fst (predict mid x pl w)"
  by (simp add: predict_def now_def Let_def split: option.splits sum.splits prod.splits)

lemma predict_storage_unchanged:
  "files (snd (predict mid x pl w)) = files w \<and> dirs (snd (predict mid x pl w)) = dirs w"
  by (simp add: predict_def now_def Let_def split: option.splits sum.splits prod.splits)

lemma load_for_inference_caches:
  "load_model_for_inference name mid_opt pl w = (Inr mid', pl') \<Longrightarrow>
   \<exists>m md. (case mid_opt of None \<Rightarrow> load_latest_model name (persistence_manager pl) w
                         | Some i \<Rightarrow> load_model i (persistence_manager pl) w) = Inr (m, md)
          \<and> map_of (loaded_models pl') mid' = Some m \<and> map_of (model_metadata pl') mid' = Some md"
  unfolding load_model_for_inference_def
  by (auto simp: update_conv' split: option.splits sum.splits prod.splits)

lemma predict_cached_pytorch:
  assumes "map_of (loaded_models pl) mid = Some m" and "map_of (model_metadata pl) mid = Some md"
    and "model_type md = ''pytorch''" and "has_eval m" and "forward m = Some f"
  shows "fst (predict mid x pl w)
     = (case f (case x of NdArray v \<Rightarrow> Tensor v | Plain v \<Rightarrow> Plain v | Tensor v \<Rightarrow> Tensor v) of
          Inl e \<Rightarrow> Inl e
        | Inr p \<Rightarrow> Inr \<lparr>r_prediction = (case p of NdArray v \<Rightarrow> v | Tensor v \<Rightarrow> v | Plain v \<Rightarrow> v),
             r_model_id = mid, r_model_name = model_name md, r_model_version = version md,
             r_timestamp = isoformat (clock w (ticks w)), r_probabilities = None\<rparr>)"
  using assms
  by (simp add: predict_def raw_predict_def prediction_field_def now_def Let_def
        split: sum.splits pyobj.splits)

lemma predict_cached_sklearn:
  assumes "map_of (loaded_models pl) mid = Some m" and "map_of (model_metadata pl) mid = Some md"
    and "model_type md = ''sklearn''" and "predict_attr m = Some f"
  shows "fst (predict mid x pl w)
     = (case f x of
          Inl e \<Rightarrow> Inl e
        | Inr p \<Rightarrow>
            (case predict_proba_attr m of
               None \<Rightarrow> Inr \<lparr>r_prediction = (case p of NdArray v \<Rightarrow> v | Tensor v \<Rightarrow> v | Plain v \<Rightarrow> v),
                  r_model_id = mid, r_model_name = model_name md, r_model_version = version md,
                  r_timestamp = isoformat (clock w (ticks w)), r_probabilities = None\<rparr>
             | Some g \<Rightarrow>
                 (case g x of
                    Inl e \<Rightarrow> Inl e
                  | Inr (Plain v) \<Rightarrow> Inl (AttributeError ''tolist'')
                  | Inr (NdArray v) \<Rightarrow>
                      Inr \<lparr>r_prediction = (case p of NdArray v \<Rightarrow> v | Tensor v \<Rightarrow> v | Plain v \<Rightarrow> v),
                        r_model_id = mid, r_model_name = model_name md, r_model_version = version md,
                        r_timestamp = isoformat (clock w (ticks w)), r_probabilities = Some v\<rparr>
                  | Inr (Tensor v) \<Rightarrow>
                      Inr \<lparr>r_prediction = (case p of NdArray v \<Rightarrow> v | Tensor v \<Rightarrow> v | Plain v \<Rightarrow> v),
                        r_model_id = mid, r_model_name = model_name md, r_model_version = version md,
                        r_timestamp = isoformat (clock w (ticks w)), r_probabilities = Some v\<rparr>)))"
  using assms
  by (simp add: predict_def raw_predict_def prediction_field_def tolist_def now_def Let_def
        split: sum.splits pyobj.splits option.splits)

lemma predict_cached_custom:
  assumes "map_of (loaded_models pl) mid = Some m" and "map_of (model_metadata pl) mid = Some md"
    and "model_type md \<noteq> ''pytorch''" and "model_type md \<noteq> ''sklearn''" and "predict_attr m = Some f"
  shows "fst (predict mid x pl w)
     = (case f x of
          Inl e \<Rightarrow> Inl e
        | Inr p \<Rightarrow> Inr \<lparr>r_prediction = (case p of NdArray v \<Rightarrow> v | Tensor v \<Rightarrow> v | Plain v \<Rightarrow> v),
             r_model_id = mid, r_model_name = model_name md, r_model_version = version md,
             r_timestamp = isoformat (clock w (ticks w)), r_probabilities = None\<rparr>)"
  using assms
  by (simp add: predict_def raw_predict_def prediction_field_def now_def Let_def
        split: sum.splits pyobj.splits)

lemma echo_state_result: "fst echo_state = Inr echo_id"
  by (simp add: echo_state_def echo_id_def echo_model_def world_defs manager_defs example_defs Let_def)

lemma echo_load: "load_model echo_id echo_manager echo_world = Inr (echo_model, echo_metadata)"
  by (simp add: echo_manager_def echo_world_def echo_state_def echo_id_def echo_model_def
        echo_metadata_def world_defs manager_defs example_defs Let_def)

lemma echo_prepared:
  "load_model_for_inference ''echo'' (Some echo_id) (init_pipeline echo_manager) echo_world
     = (Inr echo_id, echo_pipeline)"
  by (simp add: echo_pipeline_def load_model_for_inference_def init_pipeline_def echo_load)

lemma echo_caches:
  "loaded_models echo_pipeline = [(echo_id, echo_model)]
   \<and> model_metadata echo_pipeline = [(echo_id, echo_metadata)]"
  by (simp add: echo_pipeline_def load_model_for_inference_def init_pipeline_def echo_load)


text \<open>
  C8. \<^verbatim>\<open>predict\<close> on an identifier that is not in the cache fails with the not-loaded
  \<^verbatim>\<open>ValueError\<close> and leaves the storage as it was. \<^verbatim>\<open>load_model_for_inference\<close> puts the
  model and the metadata that the persistence manager loaded in the cache under the identifier
  it returns. From then on every \<^verbatim>\<open>predict\<close> on that identifier is computed by the cached
  object itself: whatever the persistence manager and the files and directories of the storage
  have become, the result is what the cached model's own \<^verbatim>\<open>__call__\<close> (pytorch) or \<^verbatim>\<open>predict\<close>
  and \<^verbatim>\<open>predict_proba\<close> (sklearn, custom) return on the input, labelled with the cached metadata.
  \<^verbatim>\<open>predict\<close> leaves the files and directories unchanged.
\<close>

theorem predict_uses_cache_only:
  "(map_of (loaded_models pl) mid = None \<longrightarrow>
      predict mid x pl w =
        (Inl (ValueError (''Model '' @ mid @ '' not loaded. Call load_model_for_inference first.'')), w))
   \<and> (load_model_for_inference name mid_opt pl w = (Inr mid', pl') \<longrightarrow>
        (\<exists>m md. (case mid_opt of None \<Rightarrow> load_latest_model name (persistence_manager pl) w
                               | Some i \<Rightarrow> load_model i (persistence_manager pl) w) = Inr (m, md)
           \<and> map_of (loaded_models pl') mid' = Some m \<and> map_of (model_metadata pl') mid' = Some md))
   \<and> (map_of (loaded_models pl) mid = Some m \<and> map_of (model_metadata pl) mid = Some md \<longrightarrow>
        (model_type md = ''pytorch'' \<and> has_eval m \<and> forward m = Some f \<longrightarrow>
           fst (predict mid x (pl\<lparr>persistence_manager := mgr_b\<rparr>)
                 (w\<lparr>files := fs, dirs := ds, write_fails := wfl\<rparr>))
             = (case f (case x of NdArray v \<Rightarrow> Tensor v | Plain v \<Rightarrow> Plain v | Tensor v \<Rightarrow> Tensor v) of
                  Inl e \<Rightarrow> Inl e
                | Inr p \<Rightarrow> Inr \<lparr>r_prediction = (case p of NdArray v \<Rightarrow> v | Tensor v \<Rightarrow> v | Plain v \<Rightarrow> v),
                r_model_id = mid, r_model_name = model_name md, r_model_version = version md,
                r_timestamp = isoformat (clock w (ticks w)), r_probabilities = None\<rparr>))
      \<and> (model_type md = ''sklearn'' \<and> predict_attr m = Some f \<longrightarrow>
           fst (predict mid x (pl\<lparr>persistence_manager := mgr_b\<rparr>)
                 (w\<lparr>files := fs, dirs := ds, write_fails := wfl\<rparr>))
             = (case f x of
                  Inl e \<Rightarrow> Inl e
                | Inr p \<Rightarrow>
                    (case predict_proba_attr m of
                       None \<Rightarrow> Inr \<lparr>r_prediction = (case p of NdArray v \<Rightarrow> v | Tensor v \<Rightarrow> v | Plain v \<Rightarrow> v),
                r_model_id = mid, r_model_name = model_name md, r_model_version = version md,
                r_timestamp = isoformat (clock w (ticks w)), r_probabilities = None\<rparr>
                     | Some g \<Rightarrow>
                         (case g x of
                            Inl e \<Rightarrow> Inl e
                          | Inr (Plain u) \<Rightarrow> Inl (AttributeError ''tolist'')
                          | Inr (NdArray u) \<Rightarrow> Inr \<lparr>r_prediction = (case p of NdArray v \<Rightarrow> v | Tensor v \<Rightarrow> v | Plain v \<Rightarrow> v),
                r_model_id = mid, r_model_name = model_name md, r_model_version = version md,
                r_timestamp = isoformat (clock w (ticks w)), r_probabilities = Some u\<rparr>
                          | Inr (Tensor u) \<Rightarrow> Inr \<lparr>r_prediction = (case p of NdArray v \<Rightarrow> v | Tensor v \<Rightarrow> v | Plain v \<Rightarrow> v),
                r_model_id = mid, r_model_name = model_name md, r_model_version = version md,
                r_timestamp = isoformat (clock w (ticks w)), r_probabilities = Some u\<rparr>))))
      \<and> (model_type md \<noteq> ''pytorch'' \<and> model_type md \<noteq> ''sklearn'' \<and> predict_attr m = Some f \<longrightarrow>
           fst (predict mid x (pl\<lparr>persistence_manager := mgr_b\<rparr>)
                 (w\<lparr>files := fs, dirs := ds, write_fails := wfl\<rparr>))
             = (case f x of
                  Inl e \<Rightarrow> Inl e
                | Inr p \<Rightarrow> Inr \<lparr>r_prediction = (case p of NdArray v \<Rightarrow> v | Tensor v \<Rightarrow> v | Plain v \<Rightarrow> v),
                r_model_id = mid, r_model_name = model_name md, r_model_version = version md,
                r_timestamp = isoformat (clock w (ticks w)), r_probabilities = None\<rparr>)))
   \<and> fst (predict mid x (pl\<lparr>persistence_manager := mgr_b\<rparr>)
             (w\<lparr>files := fs, dirs := ds, write_fails := wfl\<rparr>)) = fst (predict mid x pl w)
   \<and> files (snd (predict mid x pl w)) = files w
   \<and> dirs (snd (predict mid x pl w)) = dirs w"
proof -
  have c1: "map_of (loaded_models pl) mid = None \<longrightarrow>
      predict mid x pl w =
        (Inl (ValueError (''Model '' @ mid @ '' not loaded. Call load_model_for_inference first.'')), w)"
    using predict_not_loaded by blast
  have c2: "load_model_for_inference name mid_opt pl w = (Inr mid', pl') \<longrightarrow>
        (\<exists>m md. (case mid_opt of None \<Rightarrow> load_latest_model name (persistence_manager pl) w
                               | Some i \<Rightarrow> load_model i (persistence_manager pl) w) = Inr (m, md)
           \<and> map_of (loaded_models pl') mid' = Some m \<and> map_of (model_metadata pl') mid' = Some md)"
    using load_for_inference_caches by blast
  have ind: "fst (predict mid x (pl\<lparr>persistence_manager := mgr_b\<rparr>)
             (w\<lparr>files := fs, dirs := ds, write_fails := wfl\<rparr>)) = fst (predict mid x pl w)"
    by (rule predict_storage_independent)
  have c3: "map_of (loaded_models pl) mid = Some m \<and> map_of (model_metadata pl) mid = Some md \<longrightarrow>
        (model_type md = ''pytorch'' \<and> has_eval m \<and> forward m = Some f \<longrightarrow>
           fst (predict mid x (pl\<lparr>persistence_manager := mgr_b\<rparr>)
                 (w\<lparr>files := fs, dirs := ds, write_fails := wfl\<rparr>))
             = (case f (case x of NdArray v \<Rightarrow> Tensor v | Plain v \<Rightarrow> Plain v | Tensor v \<Rightarrow> Tensor v) of
                  Inl e \<Rightarrow> Inl e
                | Inr p \<Rightarrow> Inr \<lparr>r_prediction = (case p of NdArray v \<Rightarrow> v | Tensor v \<Rightarrow> v | Plain v \<Rightarrow> v),
                r_model_id = mid, r_model_name = model_name md, r_model_version = version md,
                r_timestamp = isoformat (clock w (ticks w)), r_probabilities = None\<rparr>))"
    unfolding ind using predict_cached_pytorch[of pl mid m md f x w] by blast
  have c4: "map_of (loaded_models pl) mid = Some m \<and> map_of (model_metadata pl) mid = Some md \<longrightarrow>
        (model_type md = ''sklearn'' \<and> predict_attr m = Some f \<longrightarrow>
           fst (predict mid x (pl\<lparr>persistence_manager := mgr_b\<rparr>)
                 (w\<lparr>files := fs, dirs := ds, write_fails := wfl\<rparr>))
             = (case f x of
                  Inl e \<Rightarrow> Inl e
                | Inr p \<Rightarrow>
                    (case predict_proba_attr m of
                       None \<Rightarrow> Inr \<lparr>r_prediction = (case p of NdArray v \<Rightarrow> v | Tensor v \<Rightarrow> v | Plain v \<Rightarrow> v),
                r_model_id = mid, r_model_name = model_name md, r_model_version = version md,
                r_timestamp = isoformat (clock w (ticks w)), r_probabilities = None\<rparr>
                     | Some g \<Rightarrow>
                         (case g x of
                            Inl e \<Rightarrow> Inl e
                          | Inr (Plain u) \<Rightarrow> Inl (AttributeError ''tolist'')
                          | Inr (NdArray u) \<Rightarrow> Inr \<lparr>r_prediction = (case p of NdArray v \<Rightarrow> v | Tensor v \<Rightarrow> v | Plain v \<Rightarrow> v),
                r_model_id = mid, r_model_name = model_name md, r_model_version = version md,
                r_timestamp = isoformat (clock w (ticks w)), r_probabilities = Some u\<rparr>
                          | Inr (Tensor u) \<Rightarrow> Inr \<lparr>r_prediction = (case p of NdArray v \<Rightarrow> v | Tensor v \<Rightarrow> v | Plain v \<Rightarrow> v),
                r_model_id = mid, r_model_name = model_name md, r_model_version = version md,
                r_timestamp = isoformat (clock w (ticks w)), r_probabilities = Some u\<rparr>))))"
    unfolding ind using predict_cached_sklearn[of pl mid m md f x w] by blast
  have c5: "map_of (loaded_models pl) mid = Some m \<and> map_of (model_metadata pl) mid = Some md \<longrightarrow>
        (model_type md \<noteq> ''pytorch'' \<and> model_type md \<noteq> ''sklearn'' \<and> predict_attr m = Some f \<longrightarrow>
           fst (predict mid x (pl\<lparr>persistence_manager := mgr_b\<rparr>)
                 (w\<lparr>files := fs, dirs := ds, write_fails := wfl\<rparr>))
             = (case f x of
                  Inl e \<Rightarrow> Inl e
                | Inr p \<Rightarrow> Inr \<lparr>r_prediction = (case p of NdArray v \<Rightarrow> v | Tensor v \<Rightarrow> v | Plain v \<Rightarrow> v),
                r_model_id = mid, r_model_name = model_name md, r_model_version = version md,
                r_timestamp = isoformat (clock w (ticks w)), r_probabilities = None\<rparr>))"
    unfolding ind using predict_cached_custom[of pl mid m md f x w] by blast
  have c6: "files (snd (predict mid x pl w)) = files w" "dirs (snd (predict mid x pl w)) = dirs w"
    using predict_storage_unchanged by blast+
  from c1 c2 c3 c4 c5 ind c6 show ?thesis by blast
qed


lemma echo_clock: "isoformat (clock echo_world n) = ''2024-03-01T12:00:00''"
  by (simp add: echo_world_def echo_state_def echo_model_def world_defs manager_defs example_defs Let_def)

theorem predict_uses_cache_only_witness:
  "map_of (loaded_models (init_pipeline echo_manager)) echo_id = None
   \<and> predict echo_id (Plain (PyList [PyNum 3])) (init_pipeline echo_manager) echo_world
       = (Inl (ValueError (''Model '' @ echo_id @ '' not loaded. Call load_model_for_inference first.'')),
          echo_world)
   \<and> load_model_for_inference ''echo'' (Some echo_id) (init_pipeline echo_manager) echo_world
       = (Inr echo_id, echo_pipeline)
   \<and> load_model echo_id echo_manager echo_world = Inr (echo_model, echo_metadata)
   \<and> map_of (loaded_models echo_pipeline) echo_id = Some echo_model
   \<and> map_of (model_metadata echo_pipeline) echo_id = Some echo_metadata
   \<and> fst (predict echo_id (Plain (PyList [PyNum 3]))
            (echo_pipeline\<lparr>persistence_manager := empty_manager\<rparr>)
            (echo_world\<lparr>files := [], dirs := [], write_fails := (\<lambda>p. True)\<rparr>))
       = Inr \<lparr>r_prediction = PyList [PyNum 3], r_model_id = echo_id, r_model_name = ''echo'',
              r_model_version = ''1'', r_timestamp = ''2024-03-01T12:00:00'', r_probabilities = None\<rparr>
   \<and> fst (predict echo_id (NdArray (PyList [PyNum 4, PyNum 5]))
            (echo_pipeline\<lparr>persistence_manager := empty_manager\<rparr>)
            (snd (predict echo_id (Plain (PyList [PyNum 3])) echo_pipeline echo_world)
               \<lparr>files := [], dirs := [], write_fails := (\<lambda>p. True)\<rparr>))
       = Inr \<lparr>r_prediction = PyList [PyNum 4, PyNum 5], r_model_id = echo_id, r_model_name = ''echo'',
              r_model_version = ''1'', r_timestamp = ''2024-03-01T12:00:00'', r_probabilities = None\<rparr>
   \<and> fst (predict ''m'' (NdArray (PyList [PyNum 7]))
            (cached_pipeline torch_model ''pytorch''\<lparr>persistence_manager := saved_manager\<rparr>)
            (empty_world\<lparr>files := [], dirs := [], write_fails := (\<lambda>p. True)\<rparr>))
       = Inr \<lparr>r_prediction = PyList [PyNum 7], r_model_id = ''m'', r_model_name = ''echo'',
              r_model_version = ''1'', r_timestamp = ''2024-03-01T12:00:00'', r_probabilities = None\<rparr>
   \<and> fst (predict ''m'' (NdArray (PyList [PyNum 8]))
            (cached_pipeline estimator_model ''sklearn''\<lparr>persistence_manager := saved_manager\<rparr>)
            (empty_world\<lparr>files := [], dirs := [], write_fails := (\<lambda>p. True)\<rparr>))
       = Inr \<lparr>r_prediction = PyList [PyNum 8], r_model_id = ''m'', r_model_name = ''echo'',
              r_model_version = ''1'', r_timestamp = ''2024-03-01T12:00:00'',
              r_probabilities = Some (PyList [PyList [PyNum 0, PyNum 1]])\<rparr>"
proof -
  let ?x1 = "Plain (PyList [PyNum 3])" and ?x2 = "NdArray (PyList [PyNum 4, PyNum 5])"
  let ?w1 = "snd (predict echo_id ?x1 echo_pipeline echo_world)"
  have h1: "map_of (loaded_models (init_pipeline echo_manager)) echo_id = None"
    by (simp add: init_pipeline_def)
  have h2: "map_of (loaded_models echo_pipeline) echo_id = Some echo_model"
    and h3: "map_of (model_metadata echo_pipeline) echo_id = Some echo_metadata"
    by (simp_all add: echo_caches)
  have h4: "model_type echo_metadata \<noteq> ''pytorch''" "model_type echo_metadata \<noteq> ''sklearn''"
    "predict_attr echo_model = Some (\<lambda>x. Inr x)"
    by (simp_all add: echo_metadata_def echo_model_def)
  have w1: "isoformat (clock ?w1 (ticks ?w1)) = ''2024-03-01T12:00:00''"
    by (simp add: predict_def raw_predict_def now_def echo_caches echo_model_def echo_metadata_def
          echo_clock Let_def)
  note t1 = predict_uses_cache_only[where pl = "init_pipeline echo_manager" and mid = echo_id
      and x = ?x1 and w = echo_world and name = "''echo''" and mid_opt = "Some echo_id"
      and mid' = echo_id and pl' = echo_pipeline]
  note t2 = predict_uses_cache_only[where pl = echo_pipeline and mid = echo_id and x = ?x1
      and w = echo_world and m = echo_model and md = echo_metadata and f = "\<lambda>x. Inr x"
      and mgr_b = empty_manager and fs = "[]" and ds = "[]" and wfl = "\<lambda>p. True"]
  note t3 = predict_uses_cache_only[where pl = echo_pipeline and mid = echo_id and x = ?x2
      and w = ?w1 and m = echo_model and md = echo_metadata and f = "\<lambda>x. Inr x"
      and mgr_b = empty_manager and fs = "[]" and ds = "[]" and wfl = "\<lambda>p. True"]
  note t4 = predict_uses_cache_only[where pl = "cached_pipeline torch_model ''pytorch''" and mid = "''m''"
      and x = "NdArray (PyList [PyNum 7])" and w = empty_world and m = torch_model
      and md = "echo_metadata\<lparr>model_id := ''m'', model_type := ''pytorch''\<rparr>" and f = "\<lambda>x. Inr x"
      and mgr_b = saved_manager and fs = "[]" and ds = "[]" and wfl = "\<lambda>p. True"]
  note t5 = predict_uses_cache_only[where pl = "cached_pipeline estimator_model ''sklearn''" and mid = "''m''"
      and x = "NdArray (PyList [PyNum 8])" and w = empty_world and m = estimator_model
      and md = "echo_metadata\<lparr>model_id := ''m'', model_type := ''sklearn''\<rparr>" and f = "\<lambda>x. Inr x"
      and mgr_b = saved_manager and fs = "[]" and ds = "[]" and wfl = "\<lambda>p. True"]
  from t1 h1 have a: "predict echo_id ?x1 (init_pipeline echo_manager) echo_world
      = (Inl (ValueError (''Model '' @ echo_id @ '' not loaded. Call load_model_for_inference first.'')),
          echo_world)" by blast
  from t2 h2 h3 h4 have b: "fst (predict echo_id ?x1
            (echo_pipeline\<lparr>persistence_manager := empty_manager\<rparr>)
            (echo_world\<lparr>files := [], dirs := [], write_fails := (\<lambda>p. True)\<rparr>))
       = Inr \<lparr>r_prediction = PyList [PyNum 3], r_model_id = echo_id, r_model_name = ''echo'',
              r_model_version = ''1'', r_timestamp = ''2024-03-01T12:00:00'', r_probabilities = None\<rparr>"
    by (simp add: echo_metadata_def echo_clock)
  from t3 h2 h3 h4 have c: "fst (predict echo_id ?x2
            (echo_pipeline\<lparr>persistence_manager := empty_manager\<rparr>)
            (?w1\<lparr>files := [], dirs := [], write_fails := (\<lambda>p. True)\<rparr>))
       = Inr \<lparr>r_prediction = PyList [PyNum 4, PyNum 5], r_model_id = echo_id, r_model_name = ''echo'',
              r_model_version = ''1'', r_timestamp = ''2024-03-01T12:00:00'', r_probabilities = None\<rparr>"
    by (simp add: echo_metadata_def w1)
  from t4 have d: "fst (predict ''m'' (NdArray (PyList [PyNum 7]))
            (cached_pipeline torch_model ''pytorch''\<lparr>persistence_manager := saved_manager\<rparr>)
            (empty_world\<lparr>files := [], dirs := [], write_fails := (\<lambda>p. True)\<rparr>))
       = Inr \<lparr>r_prediction = PyList [PyNum 7], r_model_id = ''m'', r_model_name = ''echo'',
              r_model_version = ''1'', r_timestamp = ''2024-03-01T12:00:00'', r_probabilities = None\<rparr>"
    by (simp add: cached_pipeline_def torch_model_def echo_metadata_def empty_world_def noon_def)
  from t5 have e: "fst (predict ''m'' (NdArray (PyList [PyNum 8]))
            (cached_pipeline estimator_model ''sklearn''\<lparr>persistence_manager := saved_manager\<rparr>)
            (empty_world\<lparr>files := [], dirs := [], write_fails := (\<lambda>p. True)\<rparr>))
       = Inr \<lparr>r_prediction = PyList [PyNum 8], r_model_id = ''m'', r_model_name = ''echo'',
              r_model_version = ''1'', r_timestamp = ''2024-03-01T12:00:00'',
              r_probabilities = Some (PyList [PyList [PyNum 0, PyNum 1]])\<rparr>"
    by (simp add: cached_pipeline_def estimator_model_def echo_metadata_def empty_world_def noon_def)
  from h1 a b c d e h2 h3 show ?thesis by (simp add: echo_prepared echo_load)
qed

text \<open>
  C3, as the code has it. Whenever \<^verbatim>\<open>predict\<close> returns a result, its prediction field is the
  model's raw prediction converted with \<^verbatim>\<open>tolist\<close> when it is an array or a tensor and unchanged
  otherwise: an array holding a list yields that list, and a bare Python number is returned as
  that bare number, not wrapped in a one-element sequence.
\<close>

theorem predict_prediction_field:
  "predict mid x pl w = (Inr r, w') \<Longrightarrow> map_of (loaded_models pl) mid = Some m \<Longrightarrow>
   map_of (model_metadata pl) mid = Some md \<Longrightarrow>
   \<exists>raw probs. raw_predict m md x = Inr (raw, probs) \<and> r_prediction r = prediction_field raw
      \<and> (\<forall>s. raw = Plain (PyNum s) \<longrightarrow> r_prediction r = PyNum s)
      \<and> (\<forall>vs. raw = NdArray (PyList vs) \<longrightarrow> r_prediction r = PyList vs)"
  unfolding predict_def
  by (auto simp: now_def Let_def prediction_field_def split: option.splits sum.splits prod.splits)

theorem predict_prediction_field_witness:
  "predict stress_id (NdArray (PyList [PyList [PyNum 3]])) prepared_pipeline saved_world
     = (Inr \<lparr>r_prediction = PyNum 1, r_model_id = stress_id, r_model_name = ''stress'',
              r_model_version = ''1'', r_timestamp = isoformat (clock saved_world (ticks saved_world)),
              r_probabilities = None\<rparr>,
        saved_world\<lparr>ticks := Suc (ticks saved_world)\<rparr>)
   \<and> map_of (loaded_models prepared_pipeline) stress_id = Some scalar_model
   \<and> map_of (model_metadata prepared_pipeline) stress_id = Some stress_metadata
   \<and> (\<exists>raw probs. raw_predict scalar_model stress_metadata (NdArray (PyList [PyList [PyNum 3]]))
                        = Inr (raw, probs)
          \<and> PyNum 1 = prediction_field raw)"
proof -
  have h2: "map_of (loaded_models prepared_pipeline) stress_id = Some scalar_model"
    and h3: "map_of (model_metadata prepared_pipeline) stress_id = Some stress_metadata"
    by (simp_all add: prepared_caches)
  from predict_prediction_field[OF prepared_predict h2 h3] prepared_predict h2 h3
  show ?thesis by auto
qed

text \<open>
  C3, as stated, fails: the scalar model is cached, its raw prediction is the bare number 1,
  and the prediction field of the result is that bare number, which is not a sequence.
\<close>

theorem predict_scalar_counterexample:
  "fst (predict stress_id (NdArray (PyList [PyList [PyNum 3]])) prepared_pipeline saved_world)
     = Inr \<lparr>r_prediction = PyNum 1, r_model_id = stress_id, r_model_name = ''stress'',
            r_model_version = ''1'', r_timestamp = ''2024-03-01T12:00:00'', r_probabilities = None\<rparr>
   \<and> raw_predict scalar_model stress_metadata (NdArray (PyList [PyList [PyNum 3]]))
       = Inr (Plain (PyNum 1), None)
   \<and> \<not> is_sequence (PyNum 1)"
proof -
  have "isoformat (clock saved_world (ticks saved_world)) = ''2024-03-01T12:00:00''"
    by (simp add: world_defs manager_defs example_defs Let_def)
  then show ?thesis
    by (simp add: prepared_predict is_sequence_def raw_predict_def stress_metadata_def scalar_model_def)
qed

section \<open>Properties of loading\<close>

lemma is_file_map_of: "is_file w p \<longleftrightarrow> map_of (files w) p \<noteq> None"
  by (simp add: is_file_def map_of_eq_None_iff)

lemma read_metadata_Inr:
  "read_metadata w p = Inr md \<longleftrightarrow> map_of (files w) p = Some (MetadataDoc md)"
  by (simp add: read_metadata_def read_file_def split: option.splits content.splits)

lemma load_Inr_file:
  "(torch_load w p = Inr m \<longrightarrow> map_of (files w) p = Some (TorchFile m))
   \<and> (joblib_load w p = Inr m \<longrightarrow> map_of (files w) p = Some (JoblibFile m))
   \<and> (pickle_load w p = Inr m \<longrightarrow> map_of (files w) p = Some (PickleFile m))"
  by (simp add: torch_load_def joblib_load_def pickle_load_def read_file_def
           split: option.splits content.splits)

lemma load_model_not_found:
  "find_in_registry (registry mgr) mid = None \<Longrightarrow>
   load_model mid mgr w = Inl (ValueError (''Model '' @ mid @ '' not found in registry''))"
  by (simp add: load_model_def)

lemma load_model_no_metadata:
  "find_in_registry (registry mgr) mid = Some (name, info) \<Longrightarrow>
   \<not> path_exists w (entry_metadata_path info) \<Longrightarrow>
   load_model mid mgr w =
     Inl (FileNotFoundError (''Metadata file not found: '' @ entry_metadata_path info))"
  by (simp add: load_model_def)

lemma load_model_no_artifact:
  assumes "find_in_registry (registry mgr) mid = Some (name, info)"
    and rm: "read_metadata w (entry_metadata_path info) = Inr md"
    and "\<not> path_exists w (entry_file_path info)"
  shows "load_model mid mgr w = Inl (FileNotFoundError (''Model file not found: '' @ entry_file_path info))"
proof -
  from rm have "map_of (files w) (entry_metadata_path info) = Some (MetadataDoc md)"
    by (simp only: read_metadata_Inr)
  then have "path_exists w (entry_metadata_path info)"
    by (simp add: path_exists_def is_file_map_of)
  with assms show ?thesis by (simp add: load_model_def)
qed

lemma load_model_success:
  assumes "load_model mid mgr w = Inr (m, md)"
  shows "\<exists>name info. find_in_registry (registry mgr) mid = Some (name, info)
      \<and> map_of (files w) (entry_metadata_path info) = Some (MetadataDoc md)
      \<and> is_file w (entry_file_path info)"
proof (cases "find_in_registry (registry mgr) mid")
  case None
  with assms show ?thesis by (simp add: load_model_def)
next
  case (Some ni)
  obtain name info where ni: "ni = (name, info)" by (cases ni)
  from assms Some ni have rm: "read_metadata w (entry_metadata_path info) = Inr md"
    by (simp add: load_model_def split: if_splits sum.splits)
  from assms Some ni rm have
    "(if model_type md = ''pytorch'' then torch_load w (entry_file_path info)
      else if model_type md = ''sklearn'' then joblib_load w (entry_file_path info)
      else pickle_load w (entry_file_path info)) = Inr m"
    by (simp add: load_model_def split: if_splits sum.splits)
  then have "is_file w (entry_file_path info)"
    using load_Inr_file[of w "entry_file_path info" m] by (auto simp: is_file_map_of split: if_splits)
  with Some ni rm show ?thesis by (simp add: read_metadata_Inr)
qed

text \<open>
  C7, as the code has it. \<^verbatim>\<open>load_model\<close> fails with the not-found \<^verbatim>\<open>ValueError\<close> when the
  identifier is in no dictionary of the registry; with \<^verbatim>\<open>FileNotFoundError\<close> when the entry
  exists and its metadata path does not; with \<^verbatim>\<open>FileNotFoundError\<close> when the entry exists, the
  metadata document is there and readable, and the artifact path does not exist; and it succeeds
  only when the entry, the metadata document and the artifact file all exist.
\<close>

theorem load_model_errors:
  "(find_in_registry (registry mgr) mid = None \<longrightarrow>
      load_model mid mgr w = Inl (ValueError (''Model '' @ mid @ '' not found in registry'')))
   \<and> (find_in_registry (registry mgr) mid = Some (name, info)
        \<and> \<not> path_exists w (entry_metadata_path info) \<longrightarrow>
      load_model mid mgr w =
        Inl (FileNotFoundError (''Metadata file not found: '' @ entry_metadata_path info)))
   \<and> (find_in_registry (registry mgr) mid = Some (name, info)
        \<and> read_metadata w (entry_metadata_path info) = Inr md
        \<and> \<not> path_exists w (entry_file_path info) \<longrightarrow>
      load_model mid mgr w =
        Inl (FileNotFoundError (''Model file not found: '' @ entry_file_path info)))
   \<and> (load_model mid mgr w = Inr (m, md') \<longrightarrow>
        (\<exists>name' info'. find_in_registry (registry mgr) mid = Some (name', info')
           \<and> map_of (files w) (entry_metadata_path info') = Some (MetadataDoc md')
           \<and> is_file w (entry_file_path info')))"
  using load_model_not_found[of mgr mid w] load_model_no_metadata[of mgr mid name info w]
        load_model_no_artifact[of mgr mid name info w md] load_model_success[of mid mgr w m md']
  by blast

theorem load_model_errors_witness:
  "find_in_registry (registry empty_manager) stress_id = None
   \<and> load_model stress_id empty_manager saved_world
       = Inl (ValueError (''Model '' @ stress_id @ '' not found in registry''))
   \<and> \<not> path_exists empty_world
         ''models/stress_v1_20240301_120000/stress_v1_20240301_120000_metadata.json''
   \<and> load_model stress_id saved_manager empty_world
       = Inl (FileNotFoundError (''Metadata file not found: '' @
               ''models/stress_v1_20240301_120000/stress_v1_20240301_120000_metadata.json''))
   \<and> read_metadata no_artifact_world
         ''models/stress_v1_20240301_120000/stress_v1_20240301_120000_metadata.json'' = Inr stress_metadata
   \<and> \<not> path_exists no_artifact_world ''models/stress_v1_20240301_120000/stress_v1_20240301_120000.pkl''
   \<and> load_model stress_id saved_manager no_artifact_world
       = Inl (FileNotFoundError (''Model file not found: '' @
               ''models/stress_v1_20240301_120000/stress_v1_20240301_120000.pkl''))
   \<and> load_model stress_id saved_manager saved_world = Inr (scalar_model, stress_metadata)
   \<and> is_file saved_world ''models/stress_v1_20240301_120000/stress_v1_20240301_120000.pkl''"
proof -
  let ?info = "\<lparr>entry_version = ''1'', entry_training_date = ''2024-03-01T12:00:00'',
      entry_performance_metrics = [(''accuracy'', 1)],
      entry_file_path = ''models/stress_v1_20240301_120000/stress_v1_20240301_120000.pkl'',
      entry_metadata_path = ''models/stress_v1_20240301_120000/stress_v1_20240301_120000_metadata.json'',
      entry_active = Some True\<rparr>"
  have f0: "find_in_registry (registry empty_manager) stress_id = None"
    by (simp add: empty_manager_def)
  have f1: "find_in_registry (registry saved_manager) stress_id = Some (''stress'', ?info)"
    by (simp add: saved_registry)
  have e1: "\<not> path_exists empty_world (entry_metadata_path ?info)"
    by (simp add: path_exists_def is_file_def empty_world_def)
  have r2: "read_metadata no_artifact_world (entry_metadata_path ?info) = Inr stress_metadata"
    by (simp add: no_artifact_world_def saved_files read_metadata_def read_file_def)
  have e2: "\<not> path_exists no_artifact_world (entry_file_path ?info)"
    by (simp add: no_artifact_world_def saved_files saved_dirs path_exists_def is_file_def)
  note t0 = load_model_errors[where mgr = empty_manager and mid = stress_id and w = saved_world]
  note t1 = load_model_errors[where mgr = saved_manager and mid = stress_id and w = empty_world
      and name = "''stress''" and info = ?info]
  note t2 = load_model_errors[where mgr = saved_manager and mid = stress_id and w = no_artifact_world
      and name = "''stress''" and info = ?info and md = stress_metadata]
  note t3 = load_model_errors[where mgr = saved_manager and mid = stress_id and w = saved_world
      and m = scalar_model and md' = stress_metadata]
  from t0 f0 have a: "load_model stress_id empty_manager saved_world
       = Inl (ValueError (''Model '' @ stress_id @ '' not found in registry''))" by blast
  from t1 f1 e1 have b: "load_model stress_id saved_manager empty_world
       = Inl (FileNotFoundError (''Metadata file not found: '' @ entry_metadata_path ?info))" by blast
  from t2 f1 r2 e2 have c: "load_model stress_id saved_manager no_artifact_world
       = Inl (FileNotFoundError (''Model file not found: '' @ entry_file_path ?info))" by blast
  from t3 saved_load f1 have d: "is_file saved_world (entry_file_path ?info)" by auto
  from f0 a e1 b r2 e2 c d saved_load show ?thesis by simp
qed

text \<open>
  C7, as stated, fails: the registry entry exists and the artifact file is absent, but the
  metadata path holds a file that is not a JSON document, and \<^verbatim>\<open>load_model\<close> fails with the
  decoding error raised while reading it, not with \<^verbatim>\<open>FileNotFoundError\<close>.
\<close>

theorem load_model_corrupt_metadata_counterexample:
  "find_in_registry (registry corrupt_manager) ''stress_v1'' \<noteq> None
   \<and> \<not> path_exists corrupt_world ''models/stress_v1/stress_v1.pkl''
   \<and> load_model ''stress_v1'' corrupt_manager corrupt_world
       = Inl (JSONDecodeError ''models/stress_v1/stress_v1_metadata.json'')"
  by (simp add: world_defs load_model_def corrupt_manager_def corrupt_world_def empty_world_def)

section \<open>Latest version and the active flag\<close>

lemma foldl_max_ge_init:
  fixes f :: "'a \<Rightarrow> string"
  shows "f x \<le> f (foldl (\<lambda>best y. if f best < f y then y else best) x xs)"
proof (induction xs arbitrary: x)
  case Nil
  show ?case by simp
next
  case (Cons a xs)
  have "f x \<le> f (if f x < f a then a else x)"
    by (cases "f x < f a") (simp_all add: less_imp_le)
  also have "\<dots> \<le> f (foldl (\<lambda>best y. if f best < f y then y else best) (if f x < f a then a else x) xs)"
    by (rule Cons.IH)
  finally show ?case by simp
qed

lemma foldl_max_ge_elem:
  fixes f :: "'a \<Rightarrow> string"
  shows "y \<in> set xs \<Longrightarrow> f y \<le> f (foldl (\<lambda>best y. if f best < f y then y else best) x xs)"
proof (induction xs arbitrary: x)
  case Nil
  then show ?case by simp
next
  case (Cons a xs)
  show ?case
  proof (cases "y = a")
    case True
    have "f a \<le> f (if f x < f a then a else x)"
      by (cases "f x < f a") (simp_all add: not_less)
    also have "\<dots> \<le> f (foldl (\<lambda>best y. if f best < f y then y else best) (if f x < f a then a else x) xs)"
      by (rule foldl_max_ge_init)
    finally show ?thesis using True by simp
  next
    case False
    with Cons.prems have "y \<in> set xs" by simp
    then show ?thesis using Cons.IH by simp
  qed
qed

lemma max_by_ge: "y \<in> set (x # xs) \<Longrightarrow> f y \<le> f (max_by f x xs)"
  unfolding max_by_def using foldl_max_ge_init[of f x xs] foldl_max_ge_elem[of y xs f x] by auto

lemma max_by_in: "max_by f x xs \<in> set (x # xs)"
  unfolding max_by_def by (induction xs arbitrary: x) auto

lemma max_by_unique:
  assumes "z \<in> set (x # xs)" and "\<forall>y \<in> set (x # xs). y \<noteq> z \<longrightarrow> f y < f z"
  shows "max_by f x xs = z"
proof (rule ccontr)
  assume ne: "max_by f x xs \<noteq> z"
  have "max_by f x xs \<in> set (x # xs)" by (rule max_by_in)
  with assms(2) ne have "f (max_by f x xs) < f z" by blast
  moreover have "f z \<le> f (max_by f x xs)" using assms(1) by (rule max_by_ge)
  ultimately show False by simp
qed



lemma active_models_set: "set (active_models models) = {(k, v). (k, v) \<in> set models \<and> get_active v}"
  by (auto simp: active_models_def)

lemma load_latest_resolves:
  assumes "map_of (registry mgr) name = Some models" and "active_models models \<noteq> []"
  shows "\<exists>k v. (k, v) \<in> set models \<and> get_active v
           \<and> (\<forall>(k', v') \<in> set models. get_active v' \<longrightarrow> entry_training_date v' \<le> entry_training_date v)
           \<and> load_latest_model name mgr w = load_model k mgr w"
proof -
  from assms(2) obtain kv kvs where act: "active_models models = kv # kvs"
    by (cases "active_models models") auto
  define best where "best = max_by (\<lambda>x. entry_training_date (snd x)) kv kvs"
  have "best \<in> set (active_models models)" unfolding best_def act by (rule max_by_in)
  then have 1: "(fst best, snd best) \<in> set models" and 2: "get_active (snd best)"
    by (auto simp: active_models_set)
  have 3: "\<forall>(k', v') \<in> set models. get_active v' \<longrightarrow> entry_training_date v' \<le> entry_training_date (snd best)"
  proof (clarify)
    fix k' v' assume "(k', v') \<in> set models" "get_active v'"
    then have "(k', v') \<in> set (active_models models)" by (simp add: active_models_set)
    then have "(k', v') \<in> set (kv # kvs)" by (simp only: act)
    then have "(\<lambda>x. entry_training_date (snd x)) (k', v')
                 \<le> (\<lambda>x. entry_training_date (snd x)) (max_by (\<lambda>x. entry_training_date (snd x)) kv kvs)"
      by (rule max_by_ge)
    then show "entry_training_date v' \<le> entry_training_date (snd best)" by (simp add: best_def)
  qed
  have 4: "load_latest_model name mgr w = load_model (fst best) mgr w"
    using assms(1) act by (simp add: load_latest_model_def best_def)
  from 1 2 3 4 show ?thesis by blast
qed

lemma load_latest_newest:
  assumes reg: "map_of (registry mgr) name = Some models" and mem: "(k, v) \<in> set models"
    and act: "get_active v"
    and newest: "\<forall>(k', v') \<in> set models. (k', v') \<noteq> (k, v) \<longrightarrow> entry_training_date v' < entry_training_date v"
  shows "load_latest_model name mgr w = load_model k mgr w"
proof -
  from mem act have in_act: "(k, v) \<in> set (active_models models)" by (simp add: active_models_set)
  then obtain kv kvs where a: "active_models models = kv # kvs"
    by (cases "active_models models") auto
  have "\<forall>y\<in>set (kv # kvs). y \<noteq> (k, v) \<longrightarrow>
          (\<lambda>x. entry_training_date (snd x)) y < (\<lambda>x. entry_training_date (snd x)) (k, v)"
  proof
    fix y assume m: "y \<in> set (kv # kvs)"
    with a have "y \<in> set (active_models models)" by simp
    then have "(fst y, snd y) \<in> set models" by (auto simp: active_models_set)
    with newest show "y \<noteq> (k, v) \<longrightarrow>
          (\<lambda>x. entry_training_date (snd x)) y < (\<lambda>x. entry_training_date (snd x)) (k, v)"
      by (cases y) auto
  qed
  moreover have "(k, v) \<in> set (kv # kvs)" using in_act a by simp
  ultimately have "max_by (\<lambda>x. entry_training_date (snd x)) kv kvs = (k, v)"
    by (rule max_by_unique[rotated])
  with reg a show ?thesis by (simp add: load_latest_model_def)
qed




lemma read_file_errors:
  "read_file w p = Inl e \<Longrightarrow> e = OSError p \<or> e = FileNotFoundError p"
  by (auto simp: read_file_def split: option.splits if_splits)

lemma load_model_ValueError:
  assumes "load_model mid mgr w = Inl (ValueError s)"
  shows "s = ''Model '' @ mid @ '' not found in registry''"
proof (cases "find_in_registry (registry mgr) mid")
  case None
  with assms show ?thesis by (simp add: load_model_def)
next
  case (Some ni)
  obtain name info where ni: "ni = (name, info)" by (cases ni)
  have a: "read_metadata w p \<noteq> Inl (ValueError s)" for p
    using read_file_errors[of w p]
    by (auto simp: read_metadata_def split: sum.splits content.splits)
  have b: "torch_load w p \<noteq> Inl (ValueError s)" "joblib_load w p \<noteq> Inl (ValueError s)"
    "pickle_load w p \<noteq> Inl (ValueError s)" for p
    using read_file_errors[of w p]
    by (auto simp: torch_load_def joblib_load_def pickle_load_def split: sum.splits content.splits)
  from assms Some ni a b show ?thesis
    by (auto simp: load_model_def split: if_splits sum.splits)
qed

lemma set_sorted_reverse: "set (sorted_reverse f xs) = set xs"
  by (simp add: sorted_reverse_def)

lemma missing_flag_active:
  "(k, v) \<in> set models \<Longrightarrow> entry_active v = None \<Longrightarrow> (k, v) \<in> set (active_models models)"
  by (simp add: active_models_set get_active_def)

lemma load_latest_not_no_active:
  assumes "map_of (registry mgr) name = Some models" and "active_models models \<noteq> []"
  shows "load_latest_model name mgr w \<noteq> Inl (ValueError (''No active models found for '' @ name))"
proof
  assume eq: "load_latest_model name mgr w = Inl (ValueError (''No active models found for '' @ name))"
  from load_latest_resolves[OF assms] obtain k where "load_latest_model name mgr w = load_model k mgr w"
    by blast
  with eq have "load_model k mgr w = Inl (ValueError (''No active models found for '' @ name))" by simp
  then have "''No active models found for '' @ name = ''Model '' @ k @ '' not found in registry''"
    by (rule load_model_ValueError)
  then show False by simp
qed

lemma cleanup_keep_zero:
  assumes "map_of (registry mgr) name = Some models" and "active_models models \<noteq> []"
  shows "cleanup_old_models name 0 mgr w =
     delete_each (map fst (sorted_reverse (\<lambda>x. entry_training_date (snd x)) (active_models models))) mgr w"
  using assms by (simp add: cleanup_old_models_def slice_from_def)

text \<open>
  C10. An entry of a name whose \<^verbatim>\<open>active\<close> key is missing is among the active candidates of
  both operations: \<^verbatim>\<open>load_latest_model\<close> does not report that the name has no active model, and
  loads that entry when its \<^verbatim>\<open>training_date\<close> is the greatest of the name; and
  \<^verbatim>\<open>cleanup_old_models\<close> with \<^verbatim>\<open>keep_versions = 0\<close> runs the deletion over the sorted active
  entries, which contain it.
\<close>

theorem missing_active_flag_is_active:
  assumes "map_of (registry mgr) name = Some models" and "(k, v) \<in> set models"
    and "entry_active v = None"
  shows "(k, v) \<in> set (active_models models)
     \<and> load_latest_model name mgr w \<noteq> Inl (ValueError (''No active models found for '' @ name))
     \<and> ((\<forall>(k', v') \<in> set models. (k', v') \<noteq> (k, v) \<longrightarrow> entry_training_date v' < entry_training_date v)
          \<longrightarrow> load_latest_model name mgr w = load_model k mgr w)
     \<and> cleanup_old_models name 0 mgr w =
          delete_each (map fst (sorted_reverse (\<lambda>x. entry_training_date (snd x)) (active_models models))) mgr w
     \<and> k \<in> set (map fst (sorted_reverse (\<lambda>x. entry_training_date (snd x)) (active_models models)))"
proof -
  have act: "(k, v) \<in> set (active_models models)" using assms(2,3) by (rule missing_flag_active)
  then have ne: "active_models models \<noteq> []" by auto
  have ga: "get_active v" using assms(3) by (simp add: get_active_def)
  have 2: "load_latest_model name mgr w \<noteq> Inl (ValueError (''No active models found for '' @ name))"
    using assms(1) ne by (rule load_latest_not_no_active)
  have 3: "(\<forall>(k', v') \<in> set models. (k', v') \<noteq> (k, v) \<longrightarrow> entry_training_date v' < entry_training_date v)
          \<longrightarrow> load_latest_model name mgr w = load_model k mgr w"
    using load_latest_newest[OF assms(1,2) ga] by blast
  have 4: "cleanup_old_models name 0 mgr w =
          delete_each (map fst (sorted_reverse (\<lambda>x. entry_training_date (snd x)) (active_models models))) mgr w"
    using assms(1) ne by (rule cleanup_keep_zero)
  have 5: "k \<in> set (map fst (sorted_reverse (\<lambda>x. entry_training_date (snd x)) (active_models models)))"
    using act by (force simp: set_sorted_reverse)
  from act 2 3 4 5 show ?thesis by blast
qed

lemma flagless_load:
  "load_model ''new'' flagless_manager flagless_world
     = Inr (scalar_model, example_metadata ''new'' ''2024-03-01T00:00:00Z'')"
  by (simp add: load_model_def flagless_manager_def latest_manager_def flagless_models_def
        flagless_world_def example_entry_def example_files_def example_metadata_def world_defs
        empty_world_def)

theorem missing_active_flag_is_active_witness:
  "map_of (registry flagless_manager) ''stress'' = Some flagless_models
   \<and> (''new'', example_entry ''new'' ''2024-03-01T00:00:00Z'' None) \<in> set flagless_models
   \<and> entry_active (example_entry ''new'' ''2024-03-01T00:00:00Z'' None) = None
   \<and> (''new'', example_entry ''new'' ''2024-03-01T00:00:00Z'' None) \<in> set (active_models flagless_models)
   \<and> load_latest_model ''stress'' flagless_manager flagless_world
       = Inr (scalar_model, example_metadata ''new'' ''2024-03-01T00:00:00Z'')
   \<and> cleanup_old_models ''stress'' 0 flagless_manager flagless_world
       = delete_each [''new'', ''old''] flagless_manager flagless_world"
proof -
  let ?v = "example_entry ''new'' ''2024-03-01T00:00:00Z'' None"
  have h1: "map_of (registry flagless_manager) ''stress'' = Some flagless_models"
    by (simp add: flagless_manager_def)
  have h2: "(''new'', ?v) \<in> set flagless_models" by (simp add: flagless_models_def)
  have h3: "entry_active ?v = None" by (simp add: example_entry_def)
  have h4: "\<forall>(k', v') \<in> set flagless_models. (k', v') \<noteq> (''new'', ?v)
              \<longrightarrow> entry_training_date v' < entry_training_date ?v"
    by (simp add: flagless_models_def example_entry_def)
  have srt: "map fst (sorted_reverse (\<lambda>x. entry_training_date (snd x)) (active_models flagless_models))
               = [''new'', ''old'']"
    by (simp add: sorted_reverse_def active_models_def get_active_def flagless_models_def example_entry_def)
  note t = missing_active_flag_is_active[OF h1 h2 h3, of flagless_world]
  from t h4 have a: "load_latest_model ''stress'' flagless_manager flagless_world
      = load_model ''new'' flagless_manager flagless_world" by blast
  from t have b: "(''new'', ?v) \<in> set (active_models flagless_models)" by blast
  from t have c: "cleanup_old_models ''stress'' 0 flagless_manager flagless_world =
          delete_each (map fst (sorted_reverse (\<lambda>x. entry_training_date (snd x))
             (active_models flagless_models))) flagless_manager flagless_world" by blast
  from h1 h2 h3 a b c show ?thesis by (simp only: srt flagless_load simp_thms)
qed

section \<open>Storage steps\<close>

lemma write_file_Inr:
  "(write_file p c w = Inr w') = (\<not> write_fails w p \<and> w' = w\<lparr>files := AList.update p c (files w)\<rparr>)"
  by (auto simp: write_file_def)

lemma write_file_Inl: "(write_file p c w = Inl e) = (write_fails w p \<and> e = OSError p)"
  by (auto simp: write_file_def)

lemma write_fails_mkdir: "write_fails (mkdir p w) = write_fails w"
  by (simp add: mkdir_def)




lemma commit_registry_fails:
  "write_fails w (registry_file mgr) \<Longrightarrow>
   commit_registry reg res mgr w = (Inl (OSError (registry_file mgr)), mgr\<lparr>registry := reg\<rparr>, w)"
  by (simp add: commit_registry_def save_registry_def registry_file_def write_file_def)

lemma commit_registry_ok:
  "\<not> write_fails w (registry_file mgr) \<Longrightarrow>
   commit_registry reg res mgr w =
     (Inr res, mgr\<lparr>registry := reg\<rparr>,
      w\<lparr>files := AList.update (registry_file mgr) (RegistryDoc reg) (files w)\<rparr>)"
  by (simp add: commit_registry_def save_registry_def registry_file_def write_file_def)











lemma registry_file_commit [simp]: "registry_file (mgr\<lparr>registry := reg\<rparr>) = registry_file mgr"
  by (simp add: registry_file_def)











section \<open>Saving and loading again\<close>

lemma serialize_model_Inr:
  assumes "serialize_model m mtype d mid w = (Inr (fp, gpu), w3)"
  shows "fp = join_path d (mid @ (if mtype = ''pytorch'' then ''.pth'' else ''.pkl''))
       \<and> w3 = w\<lparr>files := AList.update fp
                 (if mtype = ''pytorch'' then TorchFile m
                  else if mtype = ''sklearn'' then JoblibFile m else PickleFile m) (files w)\<rparr>"
  using assms
  by (auto simp: serialize_model_def write_file_def split: if_splits option.splits list.splits)

lemma generate_model_id_eq:
  "generate_model_id name ver w
     = (name @ ''_v'' @ ver @ ''_'' @ strftime_stamp (clock w (ticks w)), w\<lparr>ticks := Suc (ticks w)\<rparr>)"
  by (simp add: generate_model_id_def now_def)

lemma files_mkdir [simp]: "files (mkdir p w) = files w"
  by (simp add: mkdir_def)

lemma md5_mkdir [simp]: "md5_hexdigest (mkdir p w) = md5_hexdigest w"
  by (simp add: mkdir_def)

lemma save_model_success:
  assumes sv: "save_model m name ver metrics td ps mt mgr w = (Inr mid, mgr', w')"
  shows "\<exists>md entry.
      mid = name @ ''_v'' @ ver @ ''_'' @ strftime_stamp (clock w (ticks w))
    \<and> model_id md = mid \<and> model_name md = name \<and> version md = ver
    \<and> model_type md = (case mt of None \<Rightarrow> detect_model_type m | Some t \<Rightarrow> t)
    \<and> performance_metrics md = metrics
    \<and> parameters md = (case ps of None \<Rightarrow> [] | Some p \<Rightarrow> p)
    \<and> data_hash md = (case td of None \<Rightarrow> [] | Some d \<Rightarrow> md5_hexdigest w d)
    \<and> entry_file_path entry
         = join_path (join_path (base_path mgr) mid)
             (mid @ (if model_type md = ''pytorch'' then ''.pth'' else ''.pkl''))
    \<and> entry_metadata_path entry = join_path (join_path (base_path mgr) mid) (mid @ ''_metadata.json'')
    \<and> mgr' = mgr\<lparr>registry := registry_insert name mid entry (registry mgr)\<rparr>
    \<and> files w' = AList.update (registry_file mgr) (RegistryDoc (registry mgr'))
                   (AList.update (entry_metadata_path entry) (MetadataDoc md)
                     (AList.update (entry_file_path entry)
                        (if model_type md = ''pytorch'' then TorchFile m
                         else if model_type md = ''sklearn'' then JoblibFile m else PickleFile m)
                        (files w)))"
proof -
  define mid0 where "mid0 = name @ ''_v'' @ ver @ ''_'' @ strftime_stamp (clock w (ticks w))"
  define w1 where "w1 = w\<lparr>ticks := Suc (ticks w)\<rparr>"
  have g: "generate_model_id name ver w = (mid0, w1)"
    by (simp add: generate_model_id_eq mid0_def w1_def)
  let ?mtype = "case mt of None \<Rightarrow> detect_model_type m | Some t \<Rightarrow> t"
  let ?dir = "join_path (base_path mgr) mid0"
  obtain r3 w3 where s: "serialize_model m ?mtype ?dir mid0 (mkdir ?dir w1) = (r3, w3)"
    by (cases "serialize_model m ?mtype ?dir mid0 (mkdir ?dir w1)")
  show ?thesis
  proof (cases r3)
    case (Inl e)
    then have "save_model m name ver metrics td ps mt mgr w = (Inl e, mgr, w3)"
      by (simp add: save_model_def g s Let_def)
    with sv show ?thesis by simp
  next
    case (Inr fg)
    obtain fpath gpu where fg: "fg = (fpath, gpu)" by (cases fg)
    let ?art = "if ?mtype = ''pytorch'' then TorchFile m
                else if ?mtype = ''sklearn'' then JoblibFile m else PickleFile m"
    from s Inr fg have s': "serialize_model m ?mtype ?dir mid0 (mkdir ?dir w1) = (Inr (fpath, gpu), w3)"
      by simp
    from serialize_model_Inr[OF s']
    have fp: "fpath = join_path ?dir (mid0 @ (if ?mtype = ''pytorch'' then ''.pth'' else ''.pkl''))"
      and w3: "w3 = (mkdir ?dir w1)\<lparr>files := AList.update fpath ?art (files (mkdir ?dir w1))\<rparr>"
      by blast+
    have files3: "files w3 = AList.update fpath ?art (files w)" using w3 by (simp add: w1_def)
    have md53: "md5_hexdigest w3 = md5_hexdigest w" using w3 by (simp add: w1_def)
    have wf3: "write_fails w3 = write_fails w" using w3 by (simp add: w1_def write_fails_mkdir)
    show ?thesis
    proof (cases "stat_st_size w3 fpath")
      case (Inl e)
      then have "save_model m name ver metrics td ps mt mgr w = (Inl e, mgr, w3)"
        by (simp add: save_model_def g s Inr fg Let_def)
      with sv show ?thesis by simp
    next
      case fs: (Inr fsize)
      obtain t w4 where n: "now w3 = (t, w4)" by (cases "now w3")
      have files4: "files w4 = files w3" and wf4: "write_fails w4 = write_fails w3"
        using n by (auto simp: now_def)
      let ?md = "\<lparr>model_id = mid0, model_name = name, model_type = ?mtype, version = ver,
                   training_date = isoformat t, performance_metrics = metrics,
                   parameters = (case ps of None \<Rightarrow> [] | Some ps \<Rightarrow> ps),
                   data_hash = (case td of None \<Rightarrow> [] | Some d \<Rightarrow> calculate_data_hash w3 d),
                   file_path = fpath, file_size = fsize, gpu_compatible = gpu,
                   framework_version = dict_get (framework_versions w3) ?mtype [],
                   python_version = dict_get (framework_versions w3) ''python'' [],
                   dependencies = framework_versions w3\<rparr>"
      let ?mp = "join_path ?dir (mid0 @ ''_metadata.json'')"
      show ?thesis
      proof (cases "write_file ?mp (MetadataDoc ?md) w4")
        case (Inl e)
        then have "save_model m name ver metrics td ps mt mgr w = (Inl e, mgr, w4)"
          by (simp add: save_model_def g s Inr fg fs n Let_def)
        with sv show ?thesis by simp
      next
        case w5: (Inr w5)
        then have files5: "files w5 = AList.update ?mp (MetadataDoc ?md) (files w4)"
          and wf5: "write_fails w5 = write_fails w4"
          by (simp_all add: write_file_Inr)
        let ?entry = "\<lparr>entry_version = ver, entry_training_date = isoformat t,
                        entry_performance_metrics = metrics, entry_file_path = fpath,
                        entry_metadata_path = ?mp, entry_active = Some True\<rparr>"
        let ?reg = "registry_insert name mid0 ?entry (registry mgr)"
        have c: "save_model m name ver metrics td ps mt mgr w = commit_registry ?reg mid0 mgr w5"
          using w5 by (simp add: save_model_def g s Inr fg fs n Let_def)
        have nf: "\<not> write_fails w5 (registry_file mgr)"
        proof
          assume "write_fails w5 (registry_file mgr)"
          then have "commit_registry ?reg mid0 mgr w5
                       = (Inl (OSError (registry_file mgr)), mgr\<lparr>registry := ?reg\<rparr>, w5)"
            by (rule commit_registry_fails)
          with c sv show False by simp
        qed
        from commit_registry_ok[OF nf, of ?reg mid0] c sv
        have r1: "mid = mid0" and r2: "mgr' = mgr\<lparr>registry := ?reg\<rparr>"
          and r3: "w' = w5\<lparr>files := AList.update (registry_file mgr) (RegistryDoc ?reg) (files w5)\<rparr>"
          by simp_all
        have dh: "data_hash ?md = (case td of None \<Rightarrow> [] | Some d \<Rightarrow> md5_hexdigest w d)"
          by (simp add: calculate_data_hash_def md53 split: option.split)
        have fw: "files w' = AList.update (registry_file mgr) (RegistryDoc (registry mgr'))
                   (AList.update (entry_metadata_path ?entry) (MetadataDoc ?md)
                     (AList.update (entry_file_path ?entry) ?art (files w)))"
          using r2 r3 files5 files4 files3 by simp
        have "mid = name @ ''_v'' @ ver @ ''_'' @ strftime_stamp (clock w (ticks w))
          \<and> model_id ?md = mid \<and> model_name ?md = name \<and> version ?md = ver
          \<and> model_type ?md = ?mtype \<and> performance_metrics ?md = metrics
          \<and> parameters ?md = (case ps of None \<Rightarrow> [] | Some p \<Rightarrow> p)
          \<and> data_hash ?md = (case td of None \<Rightarrow> [] | Some d \<Rightarrow> md5_hexdigest w d)
          \<and> entry_file_path ?entry
               = join_path (join_path (base_path mgr) mid)
                   (mid @ (if model_type ?md = ''pytorch'' then ''.pth'' else ''.pkl''))
          \<and> entry_metadata_path ?entry = join_path (join_path (base_path mgr) mid) (mid @ ''_metadata.json'')
          \<and> mgr' = mgr\<lparr>registry := registry_insert name mid ?entry (registry mgr)\<rparr>
          \<and> files w' = AList.update (registry_file mgr) (RegistryDoc (registry mgr'))
                   (AList.update (entry_metadata_path ?entry) (MetadataDoc ?md)
                     (AList.update (entry_file_path ?entry)
                        (if model_type ?md = ''pytorch'' then TorchFile m
                         else if model_type ?md = ''sklearn'' then JoblibFile m else PickleFile m)
                        (files w)))"
          using r1 r2 dh fp fw by (simp add: mid0_def)
        then show ?thesis by blast
      qed
    qed
  qed
qed

lemma find_in_registry_insert:
  assumes "\<forall>n info. find_in_registry reg mid = Some (n, info) \<longrightarrow> n = name"
  shows "find_in_registry (registry_insert name mid entry reg) mid = Some (name, entry)"
  using assms
proof (induction reg)
  case Nil
  show ?case by (simp add: registry_insert_def dict_get_def)
next
  case (Cons p reg)
  obtain n ms where p: "p = (n, ms)" by (cases p)
  show ?case
  proof (cases "n = name")
    case True
    then show ?thesis by (simp add: p registry_insert_def dict_get_def update_conv')
  next
    case False
    have none: "map_of ms mid = None"
    proof (rule ccontr)
      assume "map_of ms mid \<noteq> None"
      then obtain info where "map_of ms mid = Some info" by auto
      then have "find_in_registry (p # reg) mid = Some (n, info)" by (simp add: p)
      with Cons.prems False show False by blast
    qed
    then have "\<forall>n info. find_in_registry reg mid = Some (n, info) \<longrightarrow> n = name"
      using Cons.prems by (simp add: p)
    then have "find_in_registry (registry_insert name mid entry reg) mid = Some (name, entry)"
      by (rule Cons.IH)
    with False none show ?thesis by (simp add: p registry_insert_def dict_get_def)
  qed
qed

lemma registry_name_no_slash: "''model_registry.json'' \<noteq> a @ ''/'' @ b"
proof
  assume "''model_registry.json'' = a @ ''/'' @ b"
  then have "set ''model_registry.json'' = set (a @ ''/'' @ b)" by (rule arg_cong)
  then have "CHR ''/'' \<in> set ''model_registry.json''" by simp
  then show False by simp
qed

lemma saved_paths_distinct:
  "join_path (join_path b mid) (mid @ ''_metadata.json'')
     \<noteq> join_path (join_path b mid) (mid @ (if c then ''.pth'' else ''.pkl''))"
  "join_path b ''model_registry.json'' \<noteq> join_path (join_path b mid) x"
  using registry_name_no_slash[of mid x] by (simp_all add: join_path_def)

lemma load_saved_model:
  assumes find: "find_in_registry (registry mgr) mid = Some (name, info)"
    and meta: "map_of (files w) (entry_metadata_path info) = Some (MetadataDoc md)"
    and art: "map_of (files w) (entry_file_path info)
                = Some (if model_type md = ''pytorch'' then TorchFile m
                        else if model_type md = ''sklearn'' then JoblibFile m else PickleFile m)"
  shows "load_model mid mgr w = Inr (m, md)"
proof -
  have e1: "path_exists w (entry_metadata_path info)" and e2: "path_exists w (entry_file_path info)"
    using meta art by (simp_all add: path_exists_def is_file_map_of)
  have rm: "read_metadata w (entry_metadata_path info) = Inr md"
    using meta by (simp add: read_metadata_Inr)
  have ld: "(if model_type md = ''pytorch'' then torch_load w (entry_file_path info)
             else if model_type md = ''sklearn'' then joblib_load w (entry_file_path info)
             else pickle_load w (entry_file_path info)) = Inr m"
    using art by (simp add: torch_load_def joblib_load_def pickle_load_def read_file_def)
  show ?thesis unfolding load_model_def using find e1 e2 rm ld by simp
qed

text \<open>
  The round trip holds whenever the identifier is not taken: when \<^verbatim>\<open>save_model\<close> returns an
  identifier that no model name preceding the saved name in the registry already holds,
  \<^verbatim>\<open>load_model\<close> on that identifier returns the saved model and a metadata record whose
  identifier, name, version, type, metrics, parameters and data hash are those supplied to or
  derived by the save.
\<close>

theorem save_then_load_round_trip:
  assumes sv: "save_model m name ver metrics td ps mt mgr w = (Inr mid, mgr', w')"
    and first: "\<forall>n info. find_in_registry (registry mgr) mid = Some (n, info) \<longrightarrow> n = name"
  shows "\<exists>md. load_model mid mgr' w' = Inr (m, md)
    \<and> model_id md = mid \<and> model_name md = name \<and> version md = ver
    \<and> model_type md = (case mt of None \<Rightarrow> detect_model_type m | Some t \<Rightarrow> t)
    \<and> performance_metrics md = metrics
    \<and> parameters md = (case ps of None \<Rightarrow> [] | Some p \<Rightarrow> p)
    \<and> data_hash md = (case td of None \<Rightarrow> [] | Some d \<Rightarrow> md5_hexdigest w d)"
proof -
  from save_model_success[OF sv] obtain md entry where
        f: "model_id md = mid" "model_name md = name" "version md = ver"
           "model_type md = (case mt of None \<Rightarrow> detect_model_type m | Some t \<Rightarrow> t)"
           "performance_metrics md = metrics"
           "parameters md = (case ps of None \<Rightarrow> [] | Some p \<Rightarrow> p)"
           "data_hash md = (case td of None \<Rightarrow> [] | Some d \<Rightarrow> md5_hexdigest w d)"
    and fp: "entry_file_path entry
         = join_path (join_path (base_path mgr) mid)
             (mid @ (if model_type md = ''pytorch'' then ''.pth'' else ''.pkl''))"
    and mp: "entry_metadata_path entry = join_path (join_path (base_path mgr) mid) (mid @ ''_metadata.json'')"
    and mg: "mgr' = mgr\<lparr>registry := registry_insert name mid entry (registry mgr)\<rparr>"
    and fw: "files w' = AList.update (registry_file mgr) (RegistryDoc (registry mgr'))
                   (AList.update (entry_metadata_path entry) (MetadataDoc md)
                     (AList.update (entry_file_path entry)
                        (if model_type md = ''pytorch'' then TorchFile m
                         else if model_type md = ''sklearn'' then JoblibFile m else PickleFile m)
                        (files w)))"
    by blast
  have find: "find_in_registry (registry mgr') mid = Some (name, entry)"
    using find_in_registry_insert[OF first] mg by simp
  have d1: "registry_file mgr \<noteq> entry_metadata_path entry"
    and d2: "registry_file mgr \<noteq> entry_file_path entry"
    and d3: "entry_metadata_path entry \<noteq> entry_file_path entry"
    unfolding fp mp registry_file_def using saved_paths_distinct by blast+
  have meta: "map_of (files w') (entry_metadata_path entry) = Some (MetadataDoc md)"
    unfolding fw using d1 by (simp add: update_conv')
  have art: "map_of (files w') (entry_file_path entry)
                = Some (if model_type md = ''pytorch'' then TorchFile m
                        else if model_type md = ''sklearn'' then JoblibFile m else PickleFile m)"
    unfolding fw using d2 d3 by (simp add: update_conv')
  have "load_model mid mgr' w' = Inr (m, md)" using find meta art by (rule load_saved_model)
  with f show ?thesis by blast
qed

theorem save_then_load_round_trip_witness:
  "save_model scalar_model ''stress'' ''1'' [(''accuracy'', 1)] None None None empty_manager empty_world
     = (Inr stress_id, saved_manager, saved_world)
   \<and> find_in_registry (registry empty_manager) stress_id = None
   \<and> load_model stress_id saved_manager saved_world = Inr (scalar_model, stress_metadata)
   \<and> model_id stress_metadata = stress_id \<and> model_name stress_metadata = ''stress''
   \<and> version stress_metadata = ''1'' \<and> model_type stress_metadata = ''custom''
   \<and> performance_metrics stress_metadata = [(''accuracy'', 1)]
   \<and> parameters stress_metadata = [] \<and> data_hash stress_metadata = []"
proof -
  have sv: "save_model scalar_model ''stress'' ''1'' [(''accuracy'', 1)] None None None empty_manager
              empty_world = (Inr stress_id, saved_manager, saved_world)"
    using saved_state_result
    by (simp add: saved_manager_def saved_world_def saved_state_def prod_eq_iff)
  have h: "find_in_registry (registry empty_manager) stress_id = None"
    by (simp add: empty_manager_def)
  then have first: "\<forall>n info. find_in_registry (registry empty_manager) stress_id = Some (n, info)
                      \<longrightarrow> n = ''stress''" by simp
  from save_then_load_round_trip[OF sv first] obtain md where
    l: "load_model stress_id saved_manager saved_world = Inr (scalar_model, md)"
    and f: "model_id md = stress_id" "model_name md = ''stress''" "version md = ''1''"
       "model_type md = (case None of None \<Rightarrow> detect_model_type scalar_model | Some t \<Rightarrow> t)"
       "performance_metrics md = [(''accuracy'', 1)]"
       "parameters md = (case None of None \<Rightarrow> [] | Some p \<Rightarrow> p)"
       "data_hash md = (case None of None \<Rightarrow> [] | Some d \<Rightarrow> md5_hexdigest empty_world d)"
    by blast
  from l saved_load have "md = stress_metadata" by simp
  with sv h l f show ?thesis by (simp add: detect_model_type_def scalar_model_def)
qed

lemma map_sum_Inl: "map_sum id f x = Inl e \<Longrightarrow> x = Inl e"
  by (cases x) simp_all

lemma second_save_load:
  "load_model collision_id collided_manager collided_world
     = Inl (UnpicklingError ''models/a_v1_v2_20240301_120000/a_v1_v2_20240301_120000.pth'')"
proof -
  have "map_sum id snd (load_model collision_id collided_manager collided_world)
          = Inl (UnpicklingError ''models/a_v1_v2_20240301_120000/a_v1_v2_20240301_120000.pth'')"
    by code_simp
  then show ?thesis by (rule map_sum_Inl)
qed

text \<open>
  C4 at the failing input. \<^verbatim>\<open>a_v1\<close> version \<^verbatim>\<open>2\<close> is saved as a torch model and, within the
  same second, \<^verbatim>\<open>a\<close> version \<^verbatim>\<open>1_v2\<close> as a custom model. Both saves return the same
  identifier, although \<^verbatim>\<open>_generate_model_id\<close> is documented to generate a unique one; loading
  the identifier returned by the second save finds the entry of \<^verbatim>\<open>a_v1\<close> first and unpickles its
  torch file, which fails, so no metadata comes back.
\<close>

theorem save_then_load_id_collision:
  "fst first_save = Inr collision_id
   \<and> fst second_save = Inr collision_id
   \<and> registry collided_manager = [(''a_v1'', [(collision_id, entry_of_a_v1)]),
                                   (''a'', [(collision_id, entry_of_a)])]
   \<and> load_model collision_id collided_manager collided_world
       = Inl (UnpicklingError ''models/a_v1_v2_20240301_120000/a_v1_v2_20240301_120000.pth'')"
proof -
  have "fst first_save = Inr collision_id" by code_simp
  moreover have "fst second_save = Inr collision_id" by code_simp
  moreover have "registry collided_manager = [(''a_v1'', [(collision_id, entry_of_a_v1)]),
                                   (''a'', [(collision_id, entry_of_a)])]" by code_simp
  ultimately show ?thesis using second_save_load by simp
qed

section \<open>Deleting, restoring and cleaning up\<close>

lemma collision_delete_load:
  "load_model collision_id (fst (snd collision_delete)) (snd (snd collision_delete))
     = Inl (FileNotFoundError (''Metadata file not found: '' @
         ''models/a_v1_v2_20240301_120000/a_v1_v2_20240301_120000_metadata.json''))"
proof -
  have "map_sum id snd (load_model collision_id (fst (snd collision_delete)) (snd (snd collision_delete)))
     = Inl (FileNotFoundError (''Metadata file not found: '' @
         ''models/a_v1_v2_20240301_120000/a_v1_v2_20240301_120000_metadata.json''))"
    by code_simp
  then show ?thesis by (rule map_sum_Inl)
qed

lemma collision_restore_load:
  "load_model ''a_v1_v2_restored_20240301_120000'' (fst (snd collision_restore)) (snd (snd collision_restore))
     = Inl (FileNotFoundError (''Model file not found: '' @
         ''models/a_v1_v2_restored_20240301_120000/a_v1_v2_restored_20240301_120000.pkl''))"
proof -
  have "map_sum id snd (load_model ''a_v1_v2_restored_20240301_120000''
            (fst (snd collision_restore)) (snd (snd collision_restore)))
     = Inl (FileNotFoundError (''Model file not found: '' @
         ''models/a_v1_v2_restored_20240301_120000/a_v1_v2_restored_20240301_120000.pkl''))"
    by code_simp
  then show ?thesis by (rule map_sum_Inl)
qed

text \<open>
  C5 at two failing inputs. After the two colliding saves the identifier is in the registry and
  \<^verbatim>\<open>delete_model\<close> succeeds, but it removed the entry of \<^verbatim>\<open>a_v1\<close>: \<^verbatim>\<open>load_model\<close> still finds the
  entry of \<^verbatim>\<open>a\<close> and fails with \<^verbatim>\<open>FileNotFoundError\<close>, not with the not-found \<^verbatim>\<open>ValueError\<close>, and
  the model restored from the backup of that deletion cannot be loaded. And when the saved
  \<^verbatim>\<open>stress\<close> model is deleted, restored, and the restored model is deleted and restored again
  within one second, the second restore returns the identifier of the model just deleted.
\<close>

theorem delete_restore_id_collision:
  "find_in_registry (registry collided_manager) collision_id = Some (''a_v1'', entry_of_a_v1)
   \<and> fst collision_delete = Inr True
   \<and> load_model collision_id (fst (snd collision_delete)) (snd (snd collision_delete))
       = Inl (FileNotFoundError (''Metadata file not found: '' @
           ''models/a_v1_v2_20240301_120000/a_v1_v2_20240301_120000_metadata.json''))
   \<and> fst collision_restore = Inr ''a_v1_v2_restored_20240301_120000''
   \<and> load_model ''a_v1_v2_restored_20240301_120000'' (fst (snd collision_restore)) (snd (snd collision_restore))
       = Inl (FileNotFoundError (''Model file not found: '' @
           ''models/a_v1_v2_restored_20240301_120000/a_v1_v2_restored_20240301_120000.pkl''))
   \<and> fst chain_delete1 = Inr True
   \<and> fst chain_restore1 = Inr restored_id
   \<and> fst chain_delete2 = Inr True
   \<and> fst chain_restore2 = Inr restored_id"
proof -
  have "find_in_registry (registry collided_manager) collision_id = Some (''a_v1'', entry_of_a_v1)"
    by code_simp
  moreover have "fst collision_delete = Inr True" by code_simp
  moreover have "fst collision_restore = Inr ''a_v1_v2_restored_20240301_120000''" by code_simp
  moreover have "fst chain_delete1 = Inr True" by code_simp
  moreover have "fst chain_restore1 = Inr restored_id" by code_simp
  moreover have "fst chain_delete2 = Inr True" by code_simp
  moreover have "fst chain_restore2 = Inr restored_id" by code_simp
  ultimately show ?thesis using collision_delete_load collision_restore_load by simp
qed

text \<open>
  The example of the specification holds: with seven active versions and
  \<^verbatim>\<open>keep_versions = 5\<close>, \<^verbatim>\<open>cleanup_old_models\<close> deletes the versions of January and February
  and returns their identifiers, newest first.
\<close>

lemma cleanup_seven_keep_five:
  "fst (cleanup_old_models ''stress'' 5 seven_manager seven_world) = [''m02'', ''m01'']
   \<and> map fst (dict_get (registry (fst (snd (cleanup_old_models ''stress'' 5 seven_manager seven_world))))
                ''stress'' [])
       = [''m03'', ''m07'', ''m05'', ''m04'', ''m06'']"
  by code_simp

text \<open>
  C6 at the failing input. After the two colliding saves the name \<^verbatim>\<open>a\<close> has one active entry;
  \<^verbatim>\<open>cleanup_old_models\<close> with \<^verbatim>\<open>keep_versions = 0\<close> returns its identifier as deleted, but
  \<^verbatim>\<open>delete_model\<close> removed the entry of \<^verbatim>\<open>a_v1\<close>, which holds the same identifier: the entry of
  \<^verbatim>\<open>a\<close> is still in the registry and the entry of the other name is gone.
\<close>

theorem cleanup_id_collision:
  "registry collided_manager = [(''a_v1'', [(collision_id, entry_of_a_v1)]),
                                 (''a'', [(collision_id, entry_of_a)])]
   \<and> active_models [(collision_id, entry_of_a)] = [(collision_id, entry_of_a)]
   \<and> fst collision_cleanup = [collision_id]
   \<and> registry (fst (snd collision_cleanup)) = [(''a'', [(collision_id, entry_of_a)])]"
  by code_simp

end
